theory Spec2Isabelle
  imports Complex_Main "HOL-Library.Sublist"
begin

section \<open>JavaScript values used by the service\<close>

text \<open>
  The service (\<^verbatim>\<open>src/index.js\<close>) is an Express application that relays Stripe
  payment-failure webhooks to Gmail and Airtable and keeps a log of its recent activity.
  The model follows the source function by function:
  \<^item> strings are byte lists; a value that may be \<^verbatim>\<open>undefined\<close> or \<^verbatim>\<open>null\<close> is an
    \<open>option\<close>;
  \<^item> an awaited call of an external SDK either returns a value or throws an error; an
    error is its \<^verbatim>\<open>message\<close>, the only part of it the code reads;
  \<^item> the mutable state (the log, the console, the clock readings taken so far and the
    effects on the outside world) is passed explicitly, one request at a time;
  \<^item> a \<^verbatim>\<open>try\<close> block is a function that returns an \<open>outcome\<close> together with the
    state reached, and the function with its \<^verbatim>\<open>catch\<close> is defined from it;
  \<^item> a verified event has a type and a data object with an \<^verbatim>\<open>id\<close>, as Stripe sends
    them; amounts are integers in minor units.
\<close>

datatype 'a outcome = Return 'a | Throw string

text \<open>\<^verbatim>\<open>String.prototype.toUpperCase\<close>, on the ASCII letters (other bytes are kept).\<close>

definition toUpperCase_char :: "char \<Rightarrow> char" where
  "toUpperCase_char c =
     (let n = (of_char c :: nat) in if 97 \<le> n \<and> n \<le> 122 then char_of (n - 32) else c)"

definition toUpperCase :: "string \<Rightarrow> string" where
  "toUpperCase s = map toUpperCase_char s"

text \<open>
  A number inside a template literal: the decimal digits of an integer, with a leading
  minus sign when it is negative (what JavaScript prints for integers below \<open>10^21\<close>).
\<close>

fun digits :: "nat \<Rightarrow> string" where
  "digits n = (if n < 10 then [char_of (48 + n)] else digits (n div 10) @ [char_of (48 + n mod 10)])"

declare digits.simps [simp del]

definition numToString :: "int \<Rightarrow> string" where
  "numToString i = (if i < 0 then CHR ''-'' # digits (nat (- i)) else digits (nat i))"

text \<open>
  Truthiness of a string that may be absent, and the operator \<^verbatim>\<open>||\<close>: \<^verbatim>\<open>undefined\<close>,
  \<^verbatim>\<open>null\<close> and the empty string are falsy.
\<close>

definition truthy :: "string option \<Rightarrow> bool" where
  "truthy v = (case v of None \<Rightarrow> False | Some s \<Rightarrow> s \<noteq> [])"

definition js_or :: "string option \<Rightarrow> string option \<Rightarrow> string option" where
  "js_or a b = (if truthy a then a else b)"

definition js_or_str :: "string option \<Rightarrow> string \<Rightarrow> string" where
  "js_or_str a d = (case a of None \<Rightarrow> d | Some s \<Rightarrow> if s = [] then d else s)"

text \<open>The message of the TypeError raised by \<^verbatim>\<open>undefined.toUpperCase()\<close>.\<close>

definition typeError_toUpperCase :: string where
  "typeError_toUpperCase = ''Cannot read properties of undefined (reading 'toUpperCase')''"

text \<open>
  \<^verbatim>\<open>Buffer.from(s).toString('base64')\<close>: three bytes become four characters of the
  alphabet, the last group is padded with \<^verbatim>\<open>=\<close>.
\<close>

definition b64_alphabet :: string where
  "b64_alphabet = ''ABCDEFGHIJKLMNOPQRSTUVWXYZabcdefghijklmnopqrstuvwxyz0123456789+/''"

definition b64_char :: "nat \<Rightarrow> char" where
  "b64_char n = b64_alphabet ! (n mod 64)"

fun base64_bytes :: "nat list \<Rightarrow> string" where
  "base64_bytes [] = []"
| "base64_bytes [a] = [b64_char (a div 4), b64_char ((a mod 4) * 16), CHR ''='', CHR ''='']"
| "base64_bytes [a, b] =
     [b64_char (a div 4), b64_char ((a mod 4) * 16 + b div 16), b64_char ((b mod 16) * 4), CHR ''='']"
| "base64_bytes (a # b # c # rest) =
     [b64_char (a div 4), b64_char ((a mod 4) * 16 + b div 16),
      b64_char ((b mod 16) * 4 + c div 64), b64_char (c mod 64)] @ base64_bytes rest"

definition base64 :: "string \<Rightarrow> string" where
  "base64 s = base64_bytes (map of_char s)"

text \<open>
  The three \<^verbatim>\<open>replace\<close> calls of line 98: every \<^verbatim>\<open>+\<close> becomes \<^verbatim>\<open>-\<close>, every \<^verbatim>\<open>/\<close>
  becomes \<^verbatim>\<open>_\<close>, and the padding at the end is removed.
\<close>

definition replace_char :: "char \<Rightarrow> char \<Rightarrow> string \<Rightarrow> string" where
  "replace_char a b s = map (\<lambda>c. if c = a then b else c) s"

definition strip_padding :: "string \<Rightarrow> string" where
  "strip_padding s = rev (dropWhile (\<lambda>c. c = CHR ''='') (rev s))"

definition base64url :: "string \<Rightarrow> string" where
  "base64url s = strip_padding (replace_char CHR ''/'' CHR ''_'' (replace_char CHR ''+'' CHR ''-'' (base64 s)))"

section \<open>Data model\<close>

record logEntry =
  timestamp :: string
  message :: string
  type :: string

text \<open>The processor's customer object: only \<^verbatim>\<open>email\<close> and \<^verbatim>\<open>name\<close> are read.\<close>

record customer =
  email :: "string option"
  name :: "string option"

record payment_error =
  pe_message :: "string option"

text \<open>
  \<^verbatim>\<open>event.data.object\<close>: the payment intent (or charge, or invoice) of a webhook event,
  with the fields the handlers read.
\<close>

record stripe_object =
  obj_id :: string
  obj_customer :: "string option"
  obj_amount :: int
  obj_currency :: "string option"
  obj_last_payment_error :: "payment_error option"

record event =
  ev_type :: string
  ev_object :: stripe_object

record failureData =
  paymentId :: string
  customerEmail :: string
  customerName :: string
  amount :: int
  currency :: "string option"
  failureReason :: string
  failedAt :: string

text \<open>The row handed to Airtable's \<^verbatim>\<open>create\<close>, one field per column.\<close>

record airtable_fields =
  Payment_ID :: string
  Customer_Email :: string
  Customer_Name :: string
  Amount :: rat
  Currency :: string
  Failure_Reason :: string
  Failed_At :: string
  Status :: string

record airtable_row =
  row_id :: string
  row_fields :: airtable_fields

datatype js_value = JNull | JString string | JRecord airtable_row

text \<open>
  What the service does to the outside world, in order: the calls of the three SDKs
  (\<^verbatim>\<open>stripe.customers.retrieve\<close>, \<^verbatim>\<open>auth.getClient\<close>,
  \<^verbatim>\<open>gmail.users.messages.send\<close>, \<^verbatim>\<open>base(...).create\<close>), and the entry into each of the
  two sinks, \<^verbatim>\<open>sendGmailAlert\<close> and \<^verbatim>\<open>updateAirtableRecord\<close>, with the record passed.
\<close>

datatype effect =
    CustomersRetrieve string
  | SendGmailAlert failureData
  | AuthGetClient
  | MessagesSend string
  | UpdateAirtableRecord failureData
  | AirtableCreate airtable_fields

record state =
  recentLogs :: "logEntry list"
  console :: "string list"
  clock :: nat
  trace :: "effect list"

text \<open>
  The environment of the process: the system clock (the answer to the \<open>k\<close>-th reading),
  the configuration, and the answers of the external services.
\<close>

record env =
  now :: "nat \<Rightarrow> string"
  ALERT_EMAIL :: "string option"
  STRIPE_WEBHOOK_SECRET :: "string option"
  constructEvent :: "string \<Rightarrow> string option \<Rightarrow> string option \<Rightarrow> event outcome"
  customers_retrieve :: "string \<Rightarrow> customer outcome"
  auth_getClient :: "unit outcome"
  messages_send :: "string \<Rightarrow> unit outcome"
  airtable_create :: "airtable_fields \<Rightarrow> airtable_row outcome"

record request =
  req_body :: string
  stripe_signature :: "string option"

datatype resp_body = Send string | Json "(string \<times> bool) list"

record response =
  status :: nat
  body :: resp_body

definition initialState :: state where
  "initialState = \<lparr>recentLogs = [], console = [], clock = 0, trace = []\<rparr>"

section \<open>The activity log\<close>

text \<open>\<^verbatim>\<open>new Date().toISOString()\<close>: one reading of the clock.\<close>

definition readClock :: "env \<Rightarrow> state \<Rightarrow> string \<times> state" where
  "readClock e s = (now e (clock s), s\<lparr>clock := Suc (clock s)\<rparr>)"

definition addLog :: "env \<Rightarrow> string \<Rightarrow> string \<Rightarrow> state \<Rightarrow> state" where
  "addLog e msg ty s =
     (let (ts, s1) = readClock e s;
          entry = \<lparr>timestamp = ts, message = msg, type = ty\<rparr>;
          logs = entry # recentLogs s1;
          kept = (if length logs > 50 then take 50 logs else logs)
      in s1\<lparr>recentLogs := kept,
            console := console s1 @ [''['' @ ts @ ''] '' @ toUpperCase ty @ '': '' @ msg]\<rparr>)"

text \<open>A sequence of appends, oldest first, and the entries they create.\<close>

fun appends :: "env \<Rightarrow> (string \<times> string) list \<Rightarrow> state \<Rightarrow> state" where
  "appends e [] s = s"
| "appends e ((msg, ty) # rest) s = appends e rest (addLog e msg ty s)"

fun entries_from :: "env \<Rightarrow> nat \<Rightarrow> (string \<times> string) list \<Rightarrow> logEntry list" where
  "entries_from e k [] = []"
| "entries_from e k ((msg, ty) # rest) =
     \<lparr>timestamp = now e k, message = msg, type = ty\<rparr> # entries_from e (Suc k) rest"

section \<open>The email dispatcher\<close>

text \<open>The UTF-8 bytes of the alert emoji of the subject line and the heading.\<close>

definition siren :: string where
  "siren = [CHR 0xF0, CHR 0x9F, CHR 0x9A, CHR 0xA8]"

text \<open>
  The template literal of lines 74 to 96, as the list of its pieces in order: the literal
  chunks and the substituted values. The currency is passed already read from the
  record, since the literal calls \<^verbatim>\<open>toUpperCase\<close> on it.
\<close>

definition emailParts :: "env \<Rightarrow> failureData \<Rightarrow> string \<Rightarrow> string list" where
  "emailParts e fd cur =
     [''\<newline>Subject: '', siren, '' Payment Failed Alert - '', customerEmail fd,
      ''\<newline>To: '', js_or_str (ALERT_EMAIL e) ''your-email@example.com'',
      ''\<newline>Content-Type: text/html; charset=utf-8\<newline>'',
      ''\<newline><html>\<newline><body>\<newline>'',
      ''  <h2>'', siren, '' Payment Failure Alert</h2>\<newline>'',
      ''  <p>A payment has failed and requires attention:</p>\<newline>'',
      ''  \<newline>'',
      ''  <table border=\"1\" cellpadding=\"10\" cellspacing=\"0\">\<newline>'',
      ''    <tr><td><strong>Payment ID:</strong></td><td>'', paymentId fd, ''</td></tr>\<newline>'',
      ''    <tr><td><strong>Customer:</strong></td><td>'', customerName fd,
           '' ('', customerEmail fd, '')</td></tr>\<newline>'',
      ''    <tr><td><strong>Amount:</strong></td><td>'', numToString (amount fd),
           '' '', toUpperCase cur, ''</td></tr>\<newline>'',
      ''    <tr><td><strong>Failure Reason:</strong></td><td>'', failureReason fd, ''</td></tr>\<newline>'',
      ''    <tr><td><strong>Failed At:</strong></td><td>'', failedAt fd, ''</td></tr>\<newline>'',
      ''  </table>\<newline>'',
      ''  \<newline>'',
      ''  <p><strong>Action Required:</strong> Please review this failed payment and take appropriate action.</p>\<newline>'',
      ''  \<newline>'',
      ''  <p>View in Stripe Dashboard: <a href=\"https://dashboard.stripe.com/payments/'',
           paymentId fd, ''\">Click here</a></p>\<newline>'',
      ''</body>\<newline>'',
      ''</html>'']"

text \<open>
  Rendering throws a TypeError when the record has no currency, since
  \<^verbatim>\<open>toUpperCase\<close> is then called on \<^verbatim>\<open>undefined\<close>.
\<close>

definition emailContent :: "env \<Rightarrow> failureData \<Rightarrow> string outcome" where
  "emailContent e fd =
     (case currency fd of
        None \<Rightarrow> Throw typeError_toUpperCase
      | Some cur \<Rightarrow> Return (concat (emailParts e fd cur)))"

text \<open>
  The body of the \<^verbatim>\<open>try\<close> block of \<^verbatim>\<open>sendGmailAlert\<close>: the auth handshake, the
  rendering, the encoding and the send; the handshake, the rendering and the send may
  throw. (\<^verbatim>\<open>google.options\<close> only stores the client and is left out.)
\<close>

definition sendGmailAlert_try :: "env \<Rightarrow> failureData \<Rightarrow> state \<Rightarrow> bool outcome \<times> state" where
  "sendGmailAlert_try e fd s =
     (let s1 = s\<lparr>trace := trace s @ [AuthGetClient]\<rparr> in
      case auth_getClient e of
        Throw err \<Rightarrow> (Throw err, s1)
      | Return authClient \<Rightarrow>
          (case emailContent e fd of
             Throw err \<Rightarrow> (Throw err, s1)
           | Return content \<Rightarrow>
               (let encodedEmail = base64url content;
                    s2 = s1\<lparr>trace := trace s1 @ [MessagesSend encodedEmail]\<rparr> in
                case messages_send e encodedEmail of
                  Throw err \<Rightarrow> (Throw err, s2)
                | Return sent \<Rightarrow>
                    (Return True,
                     addLog e (''Email alert sent for payment failure: '' @ paymentId fd) ''info'' s2))))"

text \<open>The function with its \<^verbatim>\<open>catch\<close>: an error becomes a log entry and \<open>False\<close>.\<close>

definition sendGmailAlert :: "env \<Rightarrow> failureData \<Rightarrow> state \<Rightarrow> bool \<times> state" where
  "sendGmailAlert e fd s =
     (case sendGmailAlert_try e fd (s\<lparr>trace := trace s @ [SendGmailAlert fd]\<rparr>) of
        (Return b, s') \<Rightarrow> (b, s')
      | (Throw err, s') \<Rightarrow> (False, addLog e (''Failed to send email alert: '' @ err) ''error'' s'))"

section \<open>The record-store writer\<close>

text \<open>
  The object literal of lines 118 to 127. The amount is the exact quotient by 100; the
  currency is upper-cased, which throws when the record has none.
\<close>

definition airtableFields :: "failureData \<Rightarrow> airtable_fields outcome" where
  "airtableFields fd =
     (case currency fd of
        None \<Rightarrow> Throw typeError_toUpperCase
      | Some cur \<Rightarrow> Return
          \<lparr>Payment_ID = paymentId fd,
           Customer_Email = customerEmail fd,
           Customer_Name = customerName fd,
           Amount = of_int (amount fd) / 100,
           Currency = toUpperCase cur,
           Failure_Reason = failureReason fd,
           Failed_At = failedAt fd,
           Status = ''Failed''\<rparr>)"

definition updateAirtableRecord_try :: "env \<Rightarrow> failureData \<Rightarrow> state \<Rightarrow> js_value outcome \<times> state" where
  "updateAirtableRecord_try e fd s =
     (case airtableFields fd of
        Throw err \<Rightarrow> (Throw err, s)
      | Return row \<Rightarrow>
          (let s1 = s\<lparr>trace := trace s @ [AirtableCreate row]\<rparr> in
           case airtable_create e row of
             Throw err \<Rightarrow> (Throw err, s1)
           | Return created \<Rightarrow>
               (Return (JRecord created),
                addLog e (''Created Airtable record for failed payment: '' @ row_id created) ''info'' s1)))"

definition updateAirtableRecord :: "env \<Rightarrow> failureData \<Rightarrow> state \<Rightarrow> js_value \<times> state" where
  "updateAirtableRecord e fd s =
     (case updateAirtableRecord_try e fd (s\<lparr>trace := trace s @ [UpdateAirtableRecord fd]\<rparr>) of
        (Return v, s') \<Rightarrow> (v, s')
      | (Throw err, s') \<Rightarrow> (JNull, addLog e (''Failed to create Airtable record: '' @ err) ''error'' s'))"

section \<open>Processing a failed payment\<close>

definition unknownCustomer :: customer where
  "unknownCustomer = \<lparr>email = Some ''Unknown'', name = Some ''Unknown Customer''\<rparr>"

text \<open>
  The conditional expression of lines 140 to 142: a truthy customer reference is looked
  up, and the lookup may throw; otherwise the sentinel object is used.
\<close>

definition resolveCustomer :: "env \<Rightarrow> stripe_object \<Rightarrow> state \<Rightarrow> customer outcome \<times> state" where
  "resolveCustomer e paymentIntent s =
     (case obj_customer paymentIntent of
        None \<Rightarrow> (Return unknownCustomer, s)
      | Some cid \<Rightarrow>
          if cid = [] then (Return unknownCustomer, s)
          else (customers_retrieve e cid, s\<lparr>trace := trace s @ [CustomersRetrieve cid]\<rparr>))"

text \<open>The object literal of lines 144 to 152, given the reading of the clock.\<close>

definition buildFailureData :: "stripe_object \<Rightarrow> customer \<Rightarrow> string \<Rightarrow> failureData" where
  "buildFailureData paymentIntent cust ts =
     \<lparr>paymentId = obj_id paymentIntent,
      customerEmail = js_or_str (email cust) ''Unknown'',
      customerName = js_or_str (js_or (name cust) (email cust)) ''Unknown Customer'',
      amount = obj_amount paymentIntent,
      currency = obj_currency paymentIntent,
      failureReason =
        js_or_str (case obj_last_payment_error paymentIntent of None \<Rightarrow> None | Some err \<Rightarrow> pe_message err)
          ''Unknown error'',
      failedAt = ts\<rparr>"

definition processFailedPayment_try :: "env \<Rightarrow> stripe_object \<Rightarrow> state \<Rightarrow> unit outcome \<times> state" where
  "processFailedPayment_try e paymentIntent s =
     (case resolveCustomer e paymentIntent s of
        (Throw err, s1) \<Rightarrow> (Throw err, s1)
      | (Return cust, s1) \<Rightarrow>
          (let (ts, s2) = readClock e s1;
               fd = buildFailureData paymentIntent cust ts;
               s3 = addLog e (''Processing failed payment: '' @ paymentId fd @ '' for '' @ customerEmail fd)
                      ''info'' s2;
               (emailSent, s4) = sendGmailAlert e fd s3;
               (airtableRecord, s5) = updateAirtableRecord e fd s4
           in (Return (),
               addLog e (''Successfully processed failed payment: '' @ paymentId fd) ''info'' s5)))"

definition processFailedPayment :: "env \<Rightarrow> stripe_object \<Rightarrow> state \<Rightarrow> state" where
  "processFailedPayment e paymentIntent s =
     (case processFailedPayment_try e paymentIntent s of
        (Return u, s') \<Rightarrow> s'
      | (Throw err, s') \<Rightarrow> addLog e (''Error processing failed payment: '' @ err) ''error'' s')"

section \<open>The webhook endpoint\<close>

definition webhook :: "env \<Rightarrow> request \<Rightarrow> state \<Rightarrow> response \<times> state" where
  "webhook e req s =
     (case constructEvent e (req_body req) (stripe_signature req) (STRIPE_WEBHOOK_SECRET e) of
        Throw err \<Rightarrow>
          (\<lparr>status = 400, body = Send (''Webhook Error: '' @ err)\<rparr>,
           addLog e (''Webhook signature verification failed: '' @ err) ''error'' s)
      | Return ev \<Rightarrow>
          (let s1 = addLog e (''Received webhook event: '' @ ev_type ev) ''info'' s;
               s2 = (if ev_type ev = ''payment_intent.payment_failed''
                       then processFailedPayment e (ev_object ev) s1
                     else if ev_type ev = ''charge.failed''
                       then addLog e (''Charge failed: '' @ obj_id (ev_object ev)) ''info'' s1
                     else if ev_type ev = ''invoice.payment_failed''
                       then addLog e (''Invoice payment failed: '' @ obj_id (ev_object ev)) ''info'' s1
                     else addLog e (''Unhandled event type: '' @ ev_type ev) ''warning'' s1)
           in (\<lparr>status = 200, body = Json [(''received'', True)]\<rparr>, s2)))"

text \<open>The sinks entered along a trace, and the customer lookups made.\<close>

fun isSinkEntry :: "effect \<Rightarrow> bool" where
  "isSinkEntry (SendGmailAlert fd) = True"
| "isSinkEntry (UpdateAirtableRecord fd) = True"
| "isSinkEntry x = False"

fun isSinkCall :: "effect \<Rightarrow> bool" where
  "isSinkCall AuthGetClient = True"
| "isSinkCall (MessagesSend raw) = True"
| "isSinkCall (AirtableCreate row) = True"
| "isSinkCall x = False"

fun isLookup :: "effect \<Rightarrow> bool" where
  "isLookup (CustomersRetrieve cid) = True"
| "isLookup x = False"

definition sinkEntries :: "state \<Rightarrow> effect list" where
  "sinkEntries s = filter isSinkEntry (trace s)"

definition sinkCalls :: "state \<Rightarrow> effect list" where
  "sinkCalls s = filter isSinkCall (trace s)"

definition lookups :: "state \<Rightarrow> effect list" where
  "lookups s = filter isLookup (trace s)"

section \<open>Example inputs\<close>

text \<open>
  A clock whose readings are all different, a signature check that accepts one
  signature, and an environment built from the answers of the external services.
\<close>

definition tickClock :: "nat \<Rightarrow> string" where
  "tickClock k = replicate k CHR ''I''"

definition exampleConstructEvent :: "stripe_object \<Rightarrow> string \<Rightarrow> string option \<Rightarrow> string option \<Rightarrow> event outcome" where
  "exampleConstructEvent obj payload sig secret =
     (if sig = Some ''t=1,v1=valid'' \<and> secret = Some ''whsec_test''
      then Return \<lparr>ev_type = payload, ev_object = obj\<rparr>
      else Throw ''No signatures found matching the expected signature for payload'')"

definition exampleEnv ::
  "stripe_object \<Rightarrow> customer outcome \<Rightarrow> unit outcome \<Rightarrow> unit outcome \<Rightarrow> (airtable_fields \<Rightarrow> airtable_row outcome) \<Rightarrow> env" where
  "exampleEnv obj lookup auth sent created =
     \<lparr>now = tickClock, ALERT_EMAIL = Some ''ops@example.com'',
      STRIPE_WEBHOOK_SECRET = Some ''whsec_test'',
      constructEvent = exampleConstructEvent obj,
      customers_retrieve = (\<lambda>cid. lookup),
      auth_getClient = auth,
      messages_send = (\<lambda>raw. sent),
      airtable_create = created\<rparr>"

definition examplePaymentIntent :: stripe_object where
  "examplePaymentIntent =
     \<lparr>obj_id = ''pi_3Nabc'', obj_customer = Some ''cus_123'', obj_amount = 2999,
      obj_currency = Some ''usd'',
      obj_last_payment_error = Some \<lparr>pe_message = Some ''Your card was declined.''\<rparr>\<rparr>"

definition exampleCustomer :: customer where
  "exampleCustomer = \<lparr>email = Some ''jo@example.com'', name = Some ''Jo Doe''\<rparr>"

definition exampleCreate :: "airtable_fields \<Rightarrow> airtable_row outcome" where
  "exampleCreate row = Return \<lparr>row_id = ''recA1'', row_fields = row\<rparr>"

definition envAllOk :: env where
  "envAllOk = exampleEnv examplePaymentIntent (Return exampleCustomer) (Return ()) (Return ()) exampleCreate"

definition validRequest :: "string \<Rightarrow> request" where
  "validRequest payload = \<lparr>req_body = payload, stripe_signature = Some ''t=1,v1=valid''\<rparr>"

definition forgedRequest :: request where
  "forgedRequest = \<lparr>req_body = ''payment_intent.payment_failed'', stripe_signature = Some ''t=1,v1=forged''\<rparr>"

definition envLookupFails :: env where
  "envLookupFails =
     exampleEnv examplePaymentIntent (Throw ''No such customer: cus_123'') (Return ()) (Return ()) exampleCreate"

definition envSinksFail :: env where
  "envSinksFail =
     exampleEnv examplePaymentIntent (Return exampleCustomer) (Throw ''invalid_grant'') (Return ())
       (\<lambda>row. Throw ''NOT_FOUND'')"

definition envEmailFails :: env where
  "envEmailFails =
     exampleEnv examplePaymentIntent (Return exampleCustomer) (Return ())
       (Throw ''Request failed with status code 500'') exampleCreate"

definition exampleFailure :: failureData where
  "exampleFailure = buildFailureData examplePaymentIntent exampleCustomer ''2025-01-01T00:00:00.000Z''"

definition anonymousPaymentIntent :: stripe_object where
  "anonymousPaymentIntent =
     \<lparr>obj_id = ''pi_3Nxyz'', obj_customer = None, obj_amount = 500,
      obj_currency = Some ''eur'', obj_last_payment_error = None\<rparr>"

definition exampleRow :: airtable_fields where
  "exampleRow =
     \<lparr>Payment_ID = ''pi_3Nabc'', Customer_Email = ''jo@example.com'', Customer_Name = ''Jo Doe'',
      Amount = 29.99, Currency = ''USD'', Failure_Reason = ''Your card was declined.'',
      Failed_At = ''2025-01-01T00:00:00.000Z'', Status = ''Failed''\<rparr>"

section \<open>Properties of the activity log\<close>

lemma readClock_simps [simp]:
  "fst (readClock e s) = now e (clock s)"
  "snd (readClock e s) = s\<lparr>clock := Suc (clock s)\<rparr>"
  by (simp_all add: readClock_def)

lemma addLog_recentLogs:
  "recentLogs (addLog e msg ty s) =
     take 50 (\<lparr>timestamp = now e (clock s), message = msg, type = ty\<rparr> # recentLogs s)"
  by (simp add: addLog_def readClock_def Let_def)

lemma addLog_trace [simp]: "trace (addLog e msg ty s) = trace s"
  by (simp add: addLog_def readClock_def Let_def)

lemma addLog_clock [simp]: "clock (addLog e msg ty s) = Suc (clock s)"
  by (simp add: addLog_def readClock_def Let_def)

lemma addLog_console:
  "console (addLog e msg ty s) =
     console s @ [''['' @ now e (clock s) @ ''] '' @ toUpperCase ty @ '': '' @ msg]"
  by (simp add: addLog_def readClock_def Let_def)

lemma take_append_take: "take n (xs @ take n ys) = take n (xs @ ys)"
  by (simp add: min_def)

lemma appends_recentLogs:
  "recentLogs (appends e xs (addLog e msg ty s)) =
     take 50 (rev (entries_from e (Suc (clock s)) xs) @ recentLogs (addLog e msg ty s))"
proof (induction xs arbitrary: s msg ty)
  case Nil
  show ?case by (simp add: addLog_recentLogs)
next
  case (Cons x xs)
  obtain m t where x: "x = (m, t)" by (cases x)
  have "recentLogs (appends e (x # xs) (addLog e msg ty s)) =
        recentLogs (appends e xs (addLog e m t (addLog e msg ty s)))"
    by (simp add: x)
  also have "\<dots> = take 50 (rev (entries_from e (Suc (Suc (clock s))) xs)
                       @ recentLogs (addLog e m t (addLog e msg ty s)))"
    using Cons.IH [of m t "addLog e msg ty s"] by simp
  also have "\<dots> = take 50 (rev (entries_from e (Suc (clock s)) (x # xs))
                       @ recentLogs (addLog e msg ty s))"
    by (simp add: x addLog_recentLogs [of e m t] take_append_take del: take_Cons_numeral)
  finally show ?case .
qed

lemma appends_logs:
  assumes "length (recentLogs s) \<le> 50"
  shows "recentLogs (appends e xs s) = take 50 (rev (entries_from e (clock s) xs) @ recentLogs s)"
proof (cases xs)
  case Nil
  with assms show ?thesis by simp
next
  case (Cons x rest)
  obtain m t where x: "x = (m, t)" by (cases x)
  show ?thesis
    by (simp add: Cons x appends_recentLogs addLog_recentLogs take_append_take del: take_Cons_numeral)
qed

lemma appends_logs_nonempty:
  assumes "xs \<noteq> []"
  shows "recentLogs (appends e xs s) = take 50 (rev (entries_from e (clock s) xs) @ recentLogs s)"
proof (cases xs)
  case Nil
  with assms show ?thesis by simp
next
  case (Cons x rest)
  obtain m t where x: "x = (m, t)" by (cases x)
  show ?thesis
    by (simp add: Cons x appends_recentLogs addLog_recentLogs take_append_take del: take_Cons_numeral)
qed

lemma length_entries_from [simp]: "length (entries_from e k xs) = length xs"
  by (induction xs arbitrary: k) auto

lemma entries_from_timestamps:
  "x \<in> set (entries_from e k xs) \<Longrightarrow> \<exists>i\<ge>k. timestamp x = now e i"
proof (induction xs arbitrary: k)
  case Nil
  then show ?case by simp
next
  case (Cons a xs)
  obtain m t where a: "a = (m, t)" by (cases a)
  from Cons.prems consider "x = \<lparr>timestamp = now e k, message = m, type = t\<rparr>"
    | "x \<in> set (entries_from e (Suc k) xs)"
    by (auto simp: a)
  then show ?case
  proof cases
    case 1
    then show ?thesis by auto
  next
    case 2
    then obtain i where "i \<ge> Suc k" "timestamp x = now e i"
      using Cons.IH by blast
    then show ?thesis by (intro exI [of _ i]) simp
  qed
qed

lemma entries_from_distinct:
  assumes "inj (now e)"
  shows "distinct (entries_from e k xs)"
proof (induction xs arbitrary: k)
  case Nil
  show ?case by simp
next
  case (Cons a xs)
  obtain m t where a: "a = (m, t)" by (cases a)
  have "\<lparr>timestamp = now e k, message = m, type = t\<rparr> \<notin> set (entries_from e (Suc k) xs)"
  proof
    assume "\<lparr>timestamp = now e k, message = m, type = t\<rparr> \<in> set (entries_from e (Suc k) xs)"
    then obtain i where "i \<ge> Suc k" "now e k = now e i"
      using entries_from_timestamps by fastforce
    with assms show False by (auto dest: injD)
  qed
  with Cons.IH show ?case by (simp add: a)
qed

lemma tickClock_inj: "inj tickClock"
proof (rule injI)
  fix j k
  assume "tickClock j = tickClock k"
  then have "length (tickClock j) = length (tickClock k)" by simp
  then show "j = k" by (simp add: tickClock_def)
qed

lemma appends_clock: "clock (appends e xs s) = clock s + length xs"
  by (induction xs arbitrary: s) auto

lemma entries_from_last:
  "xs \<noteq> [] \<Longrightarrow>
   last (entries_from e k xs) =
     \<lparr>timestamp = now e (k + length xs - 1), message = fst (last xs), type = snd (last xs)\<rparr>"
proof (induction xs arbitrary: k)
  case Nil
  then show ?case by simp
next
  case (Cons a xs)
  obtain m t where a: "a = (m, t)" by (cases a)
  show ?case
  proof (cases xs)
    case Nil
    then show ?thesis by (simp add: a)
  next
    case (Cons b ys)
    obtain m' t' where b: "b = (m', t')" by (cases b)
    have "entries_from e (Suc k) xs \<noteq> []" by (simp add: Cons b)
    then have "last (entries_from e k (a # xs)) = last (entries_from e (Suc k) xs)"
      by (simp add: a)
    also have "\<dots> = \<lparr>timestamp = now e (Suc k + length xs - 1), message = fst (last xs),
                        type = snd (last xs)\<rparr>"
      using Cons.IH [of "Suc k"] Cons by simp
    finally show ?thesis by (simp add: Cons)
  qed
qed

text \<open>
  Claim C7. The activity log holds at most 50 entries, newest first: an append puts the
  new entry at the front, and once the log is full the last (oldest) entry is evicted.
  After 51 appends the log is exactly the 50 newest entries in reverse order, the newest
  at position 0, and the first-appended entry is gone (unless a later append created an
  entry equal to it).
\<close>

theorem activity_log_bounded_newest_first:
  "(length (recentLogs s) \<le> 50 \<longrightarrow> length (recentLogs (appends e xs s)) \<le> 50)
   \<and> length (recentLogs (addLog e msg ty s)) \<le> 50
   \<and> recentLogs (addLog e msg ty s) =
       take 50 (\<lparr>timestamp = now e (clock s), message = msg, type = ty\<rparr> # recentLogs s)
   \<and> (length (recentLogs s) < 50 \<longrightarrow>
        recentLogs (addLog e msg ty s) =
          \<lparr>timestamp = now e (clock s), message = msg, type = ty\<rparr> # recentLogs s)
   \<and> (length (recentLogs s) = 50 \<longrightarrow>
        recentLogs (addLog e msg ty s) =
          \<lparr>timestamp = now e (clock s), message = msg, type = ty\<rparr> # butlast (recentLogs s))
   \<and> (length xs = 51 \<longrightarrow>
        recentLogs (appends e xs s) = rev (tl (entries_from e (clock s) xs))
        \<and> length (recentLogs (appends e xs s)) = 50
        \<and> recentLogs (appends e xs s) ! 0 = last (entries_from e (clock s) xs)
        \<and> (hd (entries_from e (clock s) xs) \<notin> set (tl (entries_from e (clock s) xs)) \<longrightarrow>
             hd (entries_from e (clock s) xs) \<notin> set (recentLogs (appends e xs s))))"
proof -
  let ?entry = "\<lparr>timestamp = now e (clock s), message = msg, type = ty\<rparr>"
  have bounded: "length (recentLogs s) \<le> 50 \<longrightarrow> length (recentLogs (appends e xs s)) \<le> 50"
  proof
    assume "length (recentLogs s) \<le> 50"
    then have "recentLogs (appends e xs s) =
        take 50 (rev (entries_from e (clock s) xs) @ recentLogs s)"
      by (rule appends_logs)
    then show "length (recentLogs (appends e xs s)) \<le> 50"
      by (simp del: take_append)
  qed
  have one: "length (recentLogs (addLog e msg ty s)) \<le> 50"
    by (simp add: addLog_recentLogs)
  have front: "recentLogs (addLog e msg ty s) = take 50 (?entry # recentLogs s)"
    by (rule addLog_recentLogs)
  have room: "length (recentLogs s) < 50 \<longrightarrow> recentLogs (addLog e msg ty s) = ?entry # recentLogs s"
    by (simp add: addLog_recentLogs)
  have evict: "length (recentLogs s) = 50 \<longrightarrow>
      recentLogs (addLog e msg ty s) = ?entry # butlast (recentLogs s)"
    by (simp add: addLog_recentLogs butlast_conv_take)
  have many: "recentLogs (appends e xs s) = rev (tl (entries_from e (clock s) xs))
        \<and> length (recentLogs (appends e xs s)) = 50
        \<and> recentLogs (appends e xs s) ! 0 = last (entries_from e (clock s) xs)
        \<and> (hd (entries_from e (clock s) xs) \<notin> set (tl (entries_from e (clock s) xs)) \<longrightarrow>
             hd (entries_from e (clock s) xs) \<notin> set (recentLogs (appends e xs s)))"
    if len: "length xs = 51"
  proof -
    let ?es = "entries_from e (clock s) xs"
    have n: "length ?es = 51" using len by simp
    then obtain x rest where es: "?es = x # rest" by (cases ?es) auto
    have r: "length rest = 50" using n es by simp
    from len have "xs \<noteq> []" by auto
    then have "recentLogs (appends e xs s) = take 50 (rev ?es @ recentLogs s)"
      by (rule appends_logs_nonempty)
    also have "\<dots> = rev rest" using r by (simp add: es)
    finally have eq: "recentLogs (appends e xs s) = rev (tl ?es)" by (simp add: es)
    have nonempty: "rest \<noteq> []" using r by auto
    have "rev rest ! 0 = last rest" using nonempty by (simp add: hd_rev hd_conv_nth [symmetric])
    then have newest: "recentLogs (appends e xs s) ! 0 = last ?es"
      using eq es nonempty by simp
    show ?thesis using eq newest r es by simp
  qed
  show ?thesis using bounded one front room evict many by blast
qed

theorem activity_log_bounded_newest_first_witness:
  "length (recentLogs (appends envAllOk (replicate 51 (''tick'', ''info'')) initialState)) = 50
   \<and> recentLogs (appends envAllOk (replicate 51 (''tick'', ''info'')) initialState) ! 0 =
       \<lparr>timestamp = tickClock 50, message = ''tick'', type = ''info''\<rparr>
   \<and> \<lparr>timestamp = tickClock 0, message = ''tick'', type = ''info''\<rparr>
       \<notin> set (recentLogs (appends envAllOk (replicate 51 (''tick'', ''info'')) initialState))
   \<and> length (recentLogs (appends envAllOk (replicate 50 (''tick'', ''info'')) initialState)) = 50
   \<and> recentLogs (addLog envAllOk ''one more'' ''warning''
        (appends envAllOk (replicate 50 (''tick'', ''info'')) initialState)) =
       \<lparr>timestamp = tickClock 50, message = ''one more'', type = ''warning''\<rparr>
         # butlast (recentLogs (appends envAllOk (replicate 50 (''tick'', ''info'')) initialState))
   \<and> recentLogs (addLog envAllOk ''first'' ''info'' initialState) =
       [\<lparr>timestamp = tickClock 0, message = ''first'', type = ''info''\<rparr>]
   \<and> length (recentLogs (appends envAllOk (replicate 7 (''tick'', ''info'')) initialState)) \<le> 50"
proof -
  let ?xs = "replicate 51 (''tick'', ''info'')"
  let ?es = "entries_from envAllOk (clock initialState) ?xs"
  let ?s50 = "appends envAllOk (replicate 50 (''tick'', ''info'')) initialState"
  have clk: "now envAllOk = tickClock" by (simp add: envAllOk_def exampleEnv_def)
  have c0: "clock initialState = 0" by (simp add: initialState_def)
  have len: "length ?xs = 51" by simp
  have unfold: "?xs = (''tick'', ''info'') # replicate 50 (''tick'', ''info'')"
    by (simp add: numeral_eq_Suc)
  have first: "hd ?es = \<lparr>timestamp = tickClock 0, message = ''tick'', type = ''info''\<rparr>"
    by (simp add: unfold clk c0)
  have newest: "last ?es = \<lparr>timestamp = tickClock 50, message = ''tick'', type = ''info''\<rparr>"
    using entries_from_last [of ?xs envAllOk "clock initialState"] by (simp add: clk c0)
  have "distinct ?es" by (rule entries_from_distinct) (simp add: clk tickClock_inj)
  then have fresh: "hd ?es \<notin> set (tl ?es)" by (simp add: unfold)
  have full: "length (recentLogs ?s50) = 50"
    by (simp add: appends_logs initialState_def)
  have clk50: "now envAllOk (clock ?s50) = tickClock 50"
    by (simp add: appends_clock clk c0)
  note main = activity_log_bounded_newest_first
    [of initialState envAllOk ?xs "''one more''" "''warning''"]
  note evict = activity_log_bounded_newest_first
    [of ?s50 envAllOk "[]" "''one more''" "''warning''"]
  from main len have m:
    "length (recentLogs (appends envAllOk ?xs initialState)) = 50
     \<and> recentLogs (appends envAllOk ?xs initialState) ! 0 = last ?es
     \<and> (hd ?es \<notin> set (tl ?es) \<longrightarrow> hd ?es \<notin> set (recentLogs (appends envAllOk ?xs initialState)))"
    by blast
  from evict full have ev:
    "recentLogs (addLog envAllOk ''one more'' ''warning'' ?s50) =
       \<lparr>timestamp = now envAllOk (clock ?s50), message = ''one more'', type = ''warning''\<rparr>
         # butlast (recentLogs ?s50)"
    by blast
  have empty: "recentLogs initialState = []" by (simp add: initialState_def)
  note room = activity_log_bounded_newest_first
    [of initialState envAllOk "replicate 7 (''tick'', ''info'')" "''first''" "''info''"]
  from room empty have one:
    "recentLogs (addLog envAllOk ''first'' ''info'' initialState) =
       \<lparr>timestamp = now envAllOk (clock initialState), message = ''first'', type = ''info''\<rparr>
         # recentLogs initialState"
    by simp
  from room empty have few:
    "length (recentLogs (appends envAllOk (replicate 7 (''tick'', ''info'')) initialState)) \<le> 50"
    by simp
  from one have one': "recentLogs (addLog envAllOk ''first'' ''info'' initialState) =
       [\<lparr>timestamp = tickClock 0, message = ''first'', type = ''info''\<rparr>]"
    by (simp add: clk c0 empty)
  from m fresh first newest ev full clk50 one' few show ?thesis by simp
qed

section \<open>The examples, evaluated\<close>

lemma exampleEnv_simps [simp]:
  "now (exampleEnv obj lookup auth sent created) = tickClock"
  "ALERT_EMAIL (exampleEnv obj lookup auth sent created) = Some ''ops@example.com''"
  "STRIPE_WEBHOOK_SECRET (exampleEnv obj lookup auth sent created) = Some ''whsec_test''"
  "constructEvent (exampleEnv obj lookup auth sent created) = exampleConstructEvent obj"
  "customers_retrieve (exampleEnv obj lookup auth sent created) cid = lookup"
  "auth_getClient (exampleEnv obj lookup auth sent created) = auth"
  "messages_send (exampleEnv obj lookup auth sent created) raw = sent"
  "airtable_create (exampleEnv obj lookup auth sent created) = created"
  by (simp_all add: exampleEnv_def)

lemma exampleConstructEvent_valid:
  "exampleConstructEvent obj payload (Some ''t=1,v1=valid'') (Some ''whsec_test'')
     = Return \<lparr>ev_type = payload, ev_object = obj\<rparr>"
  by (simp add: exampleConstructEvent_def)

lemma exampleConstructEvent_forged:
  "exampleConstructEvent obj payload (Some ''t=1,v1=forged'') secret
     = Throw ''No signatures found matching the expected signature for payload''"
  by (simp add: exampleConstructEvent_def)

lemma toUpperCase_usd: "toUpperCase ''usd'' = ''USD''"
  by (simp add: toUpperCase_def toUpperCase_char_def char_of_def bit_0)

lemma numToString_2999: "numToString 2999 = ''2999''"
  by (simp add: numToString_def digits.simps char_of_def bit_0)

lemma exampleFailure_fields:
  "amount exampleFailure = 2999" "currency exampleFailure = Some ''usd''"
  "paymentId exampleFailure = ''pi_3Nabc''" "customerEmail exampleFailure = ''jo@example.com''"
  "customerName exampleFailure = ''Jo Doe''"
  "failureReason exampleFailure = ''Your card was declined.''"
  by (simp_all add: exampleFailure_def buildFailureData_def examplePaymentIntent_def
      exampleCustomer_def js_or_str_def js_or_def truthy_def)

lemma exampleFailure_row: "airtableFields exampleFailure = Return exampleRow"
  by (simp add: airtableFields_def exampleRow_def exampleFailure_def buildFailureData_def
      examplePaymentIntent_def exampleCustomer_def js_or_str_def js_or_def truthy_def
      toUpperCase_usd)

section \<open>Effects of the sinks and of the pipeline\<close>

lemma addLog_hd:
  "hd (recentLogs (addLog e msg ty s)) = \<lparr>timestamp = now e (clock s), message = msg, type = ty\<rparr>"
  by (simp add: addLog_recentLogs)

lemma sinkEntries_addLog [simp]: "sinkEntries (addLog e msg ty s) = sinkEntries s"
  by (simp add: sinkEntries_def)

lemma sinkCalls_addLog [simp]: "sinkCalls (addLog e msg ty s) = sinkCalls s"
  by (simp add: sinkCalls_def)

lemma lookups_addLog [simp]: "lookups (addLog e msg ty s) = lookups s"
  by (simp add: lookups_def)

lemma sendGmailAlert_catch:
  "sendGmailAlert_try e fd (s\<lparr>trace := trace s @ [SendGmailAlert fd]\<rparr>) = (Throw err, s') \<Longrightarrow>
   sendGmailAlert e fd s = (False, addLog e (''Failed to send email alert: '' @ err) ''error'' s')"
  by (simp add: sendGmailAlert_def)

lemma sendGmailAlert_try_trace:
  "\<exists>t. trace (snd (sendGmailAlert_try e fd s)) = trace s @ AuthGetClient # t
       \<and> filter isSinkEntry t = [] \<and> filter isLookup t = []"
  by (auto simp: sendGmailAlert_try_def Let_def split: outcome.splits)

lemma sendGmailAlert_sinkEntries:
  "sinkEntries (snd (sendGmailAlert e fd s)) = sinkEntries s @ [SendGmailAlert fd]"
proof -
  obtain t where t: "trace (snd (sendGmailAlert_try e fd (s\<lparr>trace := trace s @ [SendGmailAlert fd]\<rparr>)))
      = trace (s\<lparr>trace := trace s @ [SendGmailAlert fd]\<rparr>) @ AuthGetClient # t"
    "filter isSinkEntry t = []"
    using sendGmailAlert_try_trace by blast
  show ?thesis
    using t by (cases "sendGmailAlert_try e fd (s\<lparr>trace := trace s @ [SendGmailAlert fd]\<rparr>)")
      (auto simp: sendGmailAlert_def sinkEntries_def split: outcome.splits)
qed

lemma sendGmailAlert_lookups:
  "lookups (snd (sendGmailAlert e fd s)) = lookups s"
proof -
  obtain t where t: "trace (snd (sendGmailAlert_try e fd (s\<lparr>trace := trace s @ [SendGmailAlert fd]\<rparr>)))
      = trace (s\<lparr>trace := trace s @ [SendGmailAlert fd]\<rparr>) @ AuthGetClient # t"
    "filter isLookup t = []"
    using sendGmailAlert_try_trace by blast
  show ?thesis
    using t by (cases "sendGmailAlert_try e fd (s\<lparr>trace := trace s @ [SendGmailAlert fd]\<rparr>)")
      (auto simp: sendGmailAlert_def lookups_def split: outcome.splits)
qed

lemma sendGmailAlert_auth_fails:
  "auth_getClient e = Throw err \<Longrightarrow>
   sendGmailAlert e fd s =
     (False, addLog e (''Failed to send email alert: '' @ err) ''error''
        (s\<lparr>trace := trace s @ [SendGmailAlert fd, AuthGetClient]\<rparr>))"
  by (simp add: sendGmailAlert_def sendGmailAlert_try_def)

lemma sendGmailAlert_render_fails:
  "auth_getClient e = Return u \<Longrightarrow> currency fd = None \<Longrightarrow>
   sendGmailAlert e fd s =
     (False, addLog e (''Failed to send email alert: '' @ typeError_toUpperCase) ''error''
        (s\<lparr>trace := trace s @ [SendGmailAlert fd, AuthGetClient]\<rparr>))"
  by (simp add: sendGmailAlert_def sendGmailAlert_try_def emailContent_def)

lemma sendGmailAlert_send_fails:
  "auth_getClient e = Return u \<Longrightarrow> emailContent e fd = Return content \<Longrightarrow>
   messages_send e (base64url content) = Throw err \<Longrightarrow>
   sendGmailAlert e fd s =
     (False, addLog e (''Failed to send email alert: '' @ err) ''error''
        (s\<lparr>trace := trace s @ [SendGmailAlert fd, AuthGetClient, MessagesSend (base64url content)]\<rparr>))"
  by (simp add: sendGmailAlert_def sendGmailAlert_try_def Let_def)

lemma sendGmailAlert_sent:
  "auth_getClient e = Return u \<Longrightarrow> emailContent e fd = Return content \<Longrightarrow>
   messages_send e (base64url content) = Return v \<Longrightarrow>
   sendGmailAlert e fd s =
     (True, addLog e (''Email alert sent for payment failure: '' @ paymentId fd) ''info''
        (s\<lparr>trace := trace s @ [SendGmailAlert fd, AuthGetClient, MessagesSend (base64url content)]\<rparr>))"
  by (simp add: sendGmailAlert_def sendGmailAlert_try_def Let_def)

lemma sendGmailAlert_trace_rendered:
  assumes "auth_getClient e = Return u" and "emailContent e fd = Return content"
  shows "trace (snd (sendGmailAlert e fd s)) =
     trace s @ [SendGmailAlert fd, AuthGetClient, MessagesSend (base64url content)]"
proof (cases "messages_send e (base64url content)")
  case (Return v)
  show ?thesis by (simp add: sendGmailAlert_sent [OF assms Return])
next
  case (Throw err)
  show ?thesis by (simp add: sendGmailAlert_send_fails [OF assms Throw])
qed

lemma sendGmailAlert_false_logged:
  "fst (sendGmailAlert e fd s) = False \<Longrightarrow>
   \<exists>err. type (hd (recentLogs (snd (sendGmailAlert e fd s)))) = ''error''
       \<and> message (hd (recentLogs (snd (sendGmailAlert e fd s)))) = ''Failed to send email alert: '' @ err"
  by (cases "sendGmailAlert_try e fd (s\<lparr>trace := trace s @ [SendGmailAlert fd]\<rparr>)")
     (auto simp: sendGmailAlert_def sendGmailAlert_try_def Let_def addLog_hd split: outcome.splits)

lemma updateAirtableRecord_catch:
  "updateAirtableRecord_try e fd (s\<lparr>trace := trace s @ [UpdateAirtableRecord fd]\<rparr>) = (Throw err, s') \<Longrightarrow>
   updateAirtableRecord e fd s = (JNull, addLog e (''Failed to create Airtable record: '' @ err) ''error'' s')"
  by (simp add: updateAirtableRecord_def)

lemma updateAirtableRecord_try_trace:
  "\<exists>t. trace (snd (updateAirtableRecord_try e fd s)) = trace s @ t
       \<and> filter isSinkEntry t = [] \<and> filter isLookup t = []"
  by (auto simp: updateAirtableRecord_try_def Let_def split: outcome.splits)

lemma updateAirtableRecord_sinkEntries:
  "sinkEntries (snd (updateAirtableRecord e fd s)) = sinkEntries s @ [UpdateAirtableRecord fd]"
proof -
  obtain t where t: "trace (snd (updateAirtableRecord_try e fd (s\<lparr>trace := trace s @ [UpdateAirtableRecord fd]\<rparr>)))
      = trace (s\<lparr>trace := trace s @ [UpdateAirtableRecord fd]\<rparr>) @ t"
    "filter isSinkEntry t = []"
    using updateAirtableRecord_try_trace by blast
  show ?thesis
    using t by (cases "updateAirtableRecord_try e fd (s\<lparr>trace := trace s @ [UpdateAirtableRecord fd]\<rparr>)")
      (auto simp: updateAirtableRecord_def sinkEntries_def split: outcome.splits)
qed

lemma updateAirtableRecord_lookups:
  "lookups (snd (updateAirtableRecord e fd s)) = lookups s"
proof -
  obtain t where t: "trace (snd (updateAirtableRecord_try e fd (s\<lparr>trace := trace s @ [UpdateAirtableRecord fd]\<rparr>)))
      = trace (s\<lparr>trace := trace s @ [UpdateAirtableRecord fd]\<rparr>) @ t"
    "filter isLookup t = []"
    using updateAirtableRecord_try_trace by blast
  show ?thesis
    using t by (cases "updateAirtableRecord_try e fd (s\<lparr>trace := trace s @ [UpdateAirtableRecord fd]\<rparr>)")
      (auto simp: updateAirtableRecord_def lookups_def split: outcome.splits)
qed

lemma updateAirtableRecord_render_fails:
  "currency fd = None \<Longrightarrow>
   updateAirtableRecord e fd s =
     (JNull, addLog e (''Failed to create Airtable record: '' @ typeError_toUpperCase) ''error''
        (s\<lparr>trace := trace s @ [UpdateAirtableRecord fd]\<rparr>))"
  by (simp add: updateAirtableRecord_def updateAirtableRecord_try_def airtableFields_def)

lemma updateAirtableRecord_create_fails:
  "airtableFields fd = Return row \<Longrightarrow> airtable_create e row = Throw err \<Longrightarrow>
   updateAirtableRecord e fd s =
     (JNull, addLog e (''Failed to create Airtable record: '' @ err) ''error''
        (s\<lparr>trace := trace s @ [UpdateAirtableRecord fd, AirtableCreate row]\<rparr>))"
  by (simp add: updateAirtableRecord_def updateAirtableRecord_try_def Let_def)

lemma updateAirtableRecord_created:
  "airtableFields fd = Return row \<Longrightarrow> airtable_create e row = Return created \<Longrightarrow>
   updateAirtableRecord e fd s =
     (JRecord created,
      addLog e (''Created Airtable record for failed payment: '' @ row_id created) ''info''
        (s\<lparr>trace := trace s @ [UpdateAirtableRecord fd, AirtableCreate row]\<rparr>))"
  by (simp add: updateAirtableRecord_def updateAirtableRecord_try_def Let_def)

lemma airtableFields_present:
  "currency fd = Some cur \<Longrightarrow>
   airtableFields fd = Return
     \<lparr>Payment_ID = paymentId fd, Customer_Email = customerEmail fd,
      Customer_Name = customerName fd, Amount = of_int (amount fd) / 100,
      Currency = toUpperCase cur, Failure_Reason = failureReason fd,
      Failed_At = failedAt fd, Status = ''Failed''\<rparr>"
  by (simp add: airtableFields_def)

lemma updateAirtableRecord_calls_create:
  assumes "airtableFields fd = Return row"
  shows "trace (snd (updateAirtableRecord e fd s)) = trace s @ [UpdateAirtableRecord fd, AirtableCreate row]"
proof (cases "airtable_create e row")
  case (Return created)
  show ?thesis by (simp add: updateAirtableRecord_created [OF assms Return])
next
  case (Throw err)
  show ?thesis by (simp add: updateAirtableRecord_create_fails [OF assms Throw])
qed

lemma emailParts_amount:
  "emailParts e (fd\<lparr>amount := a\<rparr>) cur =
     take 23 (emailParts e fd cur) @ [numToString a, '' '', toUpperCase cur]
       @ drop 26 (emailParts e fd cur)"
  by (simp add: emailParts_def)

lemma resolveCustomer_absent:
  "\<not> truthy (obj_customer paymentIntent) \<Longrightarrow>
   resolveCustomer e paymentIntent s = (Return unknownCustomer, s)"
  by (auto simp: resolveCustomer_def truthy_def split: option.splits)

lemma resolveCustomer_present:
  "obj_customer paymentIntent = Some cid \<Longrightarrow> cid \<noteq> [] \<Longrightarrow>
   resolveCustomer e paymentIntent s =
     (customers_retrieve e cid, s\<lparr>trace := trace s @ [CustomersRetrieve cid]\<rparr>)"
  by (simp add: resolveCustomer_def)

lemma resolveCustomer_sinkEntries [simp]:
  "sinkEntries (snd (resolveCustomer e paymentIntent s)) = sinkEntries s"
  by (auto simp: resolveCustomer_def sinkEntries_def split: option.splits)

lemma processFailedPayment_thrown:
  "resolveCustomer e paymentIntent s = (Throw err, s1) \<Longrightarrow>
   processFailedPayment e paymentIntent s =
     addLog e (''Error processing failed payment: '' @ err) ''error'' s1"
  by (simp add: processFailedPayment_def processFailedPayment_try_def)

lemma processFailedPayment_try_throws_only_in_lookup:
  "processFailedPayment_try e paymentIntent s = (Throw err, s1) \<Longrightarrow>
   resolveCustomer e paymentIntent s = (Throw err, s1)"
  by (cases "resolveCustomer e paymentIntent s")
     (auto simp: processFailedPayment_try_def Let_def split: outcome.splits prod.splits)

lemma processFailedPayment_resolved:
  assumes "resolveCustomer e paymentIntent s = (Return cust, s1)"
  shows "processFailedPayment e paymentIntent s =
     (let fd = buildFailureData paymentIntent cust (now e (clock s1));
          s2 = s1\<lparr>clock := Suc (clock s1)\<rparr>;
          s3 = addLog e (''Processing failed payment: '' @ paymentId fd @ '' for '' @ customerEmail fd) ''info'' s2;
          s4 = snd (sendGmailAlert e fd s3);
          s5 = snd (updateAirtableRecord e fd s4)
      in addLog e (''Successfully processed failed payment: '' @ paymentId fd) ''info'' s5)"
  using assms
  by (simp add: processFailedPayment_def processFailedPayment_try_def readClock_def Let_def
      split: prod.splits)

lemma processFailedPayment_sinkEntries_resolved:
  assumes "resolveCustomer e paymentIntent s = (Return cust, s1)"
  shows "sinkEntries (processFailedPayment e paymentIntent s) =
     sinkEntries s @ [SendGmailAlert (buildFailureData paymentIntent cust (now e (clock s1))),
                      UpdateAirtableRecord (buildFailureData paymentIntent cust (now e (clock s1)))]"
proof -
  have s1: "sinkEntries s1 = sinkEntries s"
    using resolveCustomer_sinkEntries [of e paymentIntent s] assms by simp
  have aux: "sinkEntries (s1\<lparr>clock := Suc (clock s1)\<rparr>) = sinkEntries s1"
    by (simp add: sinkEntries_def)
  show ?thesis
    by (simp add: processFailedPayment_resolved [OF assms] Let_def
        updateAirtableRecord_sinkEntries sendGmailAlert_sinkEntries aux s1)
qed

lemma processFailedPayment_sinkEntries_thrown:
  assumes "resolveCustomer e paymentIntent s = (Throw err, s1)"
  shows "sinkEntries (processFailedPayment e paymentIntent s) = sinkEntries s"
  using resolveCustomer_sinkEntries [of e paymentIntent s] assms
  by (simp add: processFailedPayment_thrown [OF assms])

lemma processFailedPayment_create_called:
  assumes r: "resolveCustomer e paymentIntent s = (Return cust, s1)"
    and f: "airtableFields (buildFailureData paymentIntent cust (now e (clock s1))) = Return row"
  shows "AirtableCreate row \<in> set (trace (processFailedPayment e paymentIntent s))"
  by (simp add: processFailedPayment_resolved [OF r] Let_def
      updateAirtableRecord_calls_create [OF f])

lemma lookups_resolveCustomer_absent:
  "\<not> truthy (obj_customer paymentIntent) \<Longrightarrow>
   lookups (processFailedPayment e paymentIntent s) = lookups s"
proof -
  assume a: "\<not> truthy (obj_customer paymentIntent)"
  have r: "resolveCustomer e paymentIntent s = (Return unknownCustomer, s)"
    using a by (rule resolveCustomer_absent)
  have aux: "lookups (s\<lparr>clock := Suc (clock s)\<rparr>) = lookups s"
    by (simp add: lookups_def)
  show ?thesis
    by (simp add: processFailedPayment_resolved [OF r] Let_def updateAirtableRecord_lookups
        sendGmailAlert_lookups aux)
qed

lemma webhook_verified:
  "constructEvent e (req_body req) (stripe_signature req) (STRIPE_WEBHOOK_SECRET e) = Return ev \<Longrightarrow>
   snd (webhook e req s) =
     (if ev_type ev = ''payment_intent.payment_failed''
        then processFailedPayment e (ev_object ev)
               (addLog e (''Received webhook event: '' @ ev_type ev) ''info'' s)
      else if ev_type ev = ''charge.failed''
        then addLog e (''Charge failed: '' @ obj_id (ev_object ev)) ''info''
               (addLog e (''Received webhook event: '' @ ev_type ev) ''info'' s)
      else if ev_type ev = ''invoice.payment_failed''
        then addLog e (''Invoice payment failed: '' @ obj_id (ev_object ev)) ''info''
               (addLog e (''Received webhook event: '' @ ev_type ev) ''info'' s)
      else addLog e (''Unhandled event type: '' @ ev_type ev) ''warning''
             (addLog e (''Received webhook event: '' @ ev_type ev) ''info'' s))"
  by (simp add: webhook_def Let_def)

section \<open>Signature verification and acknowledgement\<close>

text \<open>
  Claim C1. When the payload fails signature verification (\<^verbatim>\<open>constructEvent\<close> throws),
  the handler answers 400 with the error message and appends one entry of severity
  \<^verbatim>\<open>error\<close>; nothing else happens: the state is the old one with that entry, so no
  failure record is built, no customer is looked up and no sink is entered or called.
\<close>

theorem webhook_rejects_unverified_payload:
  assumes "constructEvent e (req_body req) (stripe_signature req) (STRIPE_WEBHOOK_SECRET e) = Throw err"
  shows "status (fst (webhook e req s)) = 400
    \<and> body (fst (webhook e req s)) = Send (''Webhook Error: '' @ err)
    \<and> snd (webhook e req s) = addLog e (''Webhook signature verification failed: '' @ err) ''error'' s
    \<and> hd (recentLogs (snd (webhook e req s))) =
        \<lparr>timestamp = now e (clock s),
         message = ''Webhook signature verification failed: '' @ err, type = ''error''\<rparr>
    \<and> trace (snd (webhook e req s)) = trace s
    \<and> sinkEntries (snd (webhook e req s)) = sinkEntries s
    \<and> sinkCalls (snd (webhook e req s)) = sinkCalls s
    \<and> lookups (snd (webhook e req s)) = lookups s
    \<and> clock (snd (webhook e req s)) = Suc (clock s)"
proof -
  have w: "webhook e req s =
      (\<lparr>status = 400, body = Send (''Webhook Error: '' @ err)\<rparr>,
       addLog e (''Webhook signature verification failed: '' @ err) ''error'' s)"
    using assms by (simp add: webhook_def)
  show ?thesis by (simp add: w addLog_hd)
qed

theorem webhook_rejects_unverified_payload_witness:
  "status (fst (webhook envAllOk forgedRequest initialState)) = 400
   \<and> body (fst (webhook envAllOk forgedRequest initialState)) =
       Send ''Webhook Error: No signatures found matching the expected signature for payload''
   \<and> trace (snd (webhook envAllOk forgedRequest initialState)) = []
   \<and> type (hd (recentLogs (snd (webhook envAllOk forgedRequest initialState)))) = ''error''
   \<and> clock (snd (webhook envAllOk forgedRequest initialState)) = 1"
proof -
  have h: "constructEvent envAllOk (req_body forgedRequest) (stripe_signature forgedRequest)
      (STRIPE_WEBHOOK_SECRET envAllOk)
      = Throw ''No signatures found matching the expected signature for payload''"
    by (simp add: envAllOk_def forgedRequest_def exampleConstructEvent_forged)
  show ?thesis
    using webhook_rejects_unverified_payload [OF h, of initialState]
    by (simp add: initialState_def addLog_hd)
qed

text \<open>
  Claim C2. Every event that passes signature verification is answered with status 200
  and the body \<^verbatim>\<open>{received: true}\<close>, for every event type and whatever the external
  services answer (the environment is arbitrary), so also when both sinks fail.
\<close>

theorem webhook_acknowledges_verified_event:
  assumes "constructEvent e (req_body req) (stripe_signature req) (STRIPE_WEBHOOK_SECRET e) = Return ev"
  shows "fst (webhook e req s) = \<lparr>status = 200, body = Json [(''received'', True)]\<rparr>"
  using assms by (simp add: webhook_def Let_def)

theorem webhook_acknowledges_verified_event_witness:
  "fst (webhook envSinksFail (validRequest ''payment_intent.payment_failed'') initialState) =
     \<lparr>status = 200, body = Json [(''received'', True)]\<rparr>
   \<and> fst (sendGmailAlert envSinksFail exampleFailure initialState) = False
   \<and> fst (updateAirtableRecord envSinksFail exampleFailure initialState) = JNull
   \<and> fst (webhook envSinksFail (validRequest ''customer.created'') initialState) =
     \<lparr>status = 200, body = Json [(''received'', True)]\<rparr>"
proof -
  have h: "constructEvent envSinksFail (req_body (validRequest payload))
      (stripe_signature (validRequest payload)) (STRIPE_WEBHOOK_SECRET envSinksFail)
      = Return \<lparr>ev_type = payload, ev_object = examplePaymentIntent\<rparr>" for payload
    by (simp add: envSinksFail_def validRequest_def exampleConstructEvent_valid)
  have email: "fst (sendGmailAlert envSinksFail exampleFailure initialState) = False"
    by (simp add: sendGmailAlert_def sendGmailAlert_try_def envSinksFail_def)
  have store: "fst (updateAirtableRecord envSinksFail exampleFailure initialState) = JNull"
    by (simp add: updateAirtableRecord_def updateAirtableRecord_try_def envSinksFail_def Let_def
        split: outcome.splits)
  show ?thesis
    using webhook_acknowledges_verified_event [OF h, of "''payment_intent.payment_failed''" initialState]
      webhook_acknowledges_verified_event [OF h, of "''customer.created''" initialState]
      email store
    by simp
qed

section \<open>Dispatch on the event type\<close>

text \<open>
  Claim C4, amended. For a verified event the branch taken depends on the type tag only.
  \<^verbatim>\<open>payment_intent.payment_failed\<close> runs \<^verbatim>\<open>processFailedPayment\<close>, which enters both
  sinks (email, then record store) when the customer is resolved, that is when the
  reference is absent or its lookup returns, and enters neither when the lookup throws.
  \<^verbatim>\<open>charge.failed\<close> and \<^verbatim>\<open>invoice.payment_failed\<close> append one \<^verbatim>\<open>info\<close> entry and
  have no external effect; any other type appends one \<^verbatim>\<open>warning\<close> entry and has no
  external effect.
\<close>

theorem webhook_dispatch_by_event_type:
  assumes "constructEvent e (req_body req) (stripe_signature req) (STRIPE_WEBHOOK_SECRET e) = Return ev"
  shows "(ev_type ev = ''payment_intent.payment_failed'' \<longrightarrow>
        snd (webhook e req s) =
          processFailedPayment e (ev_object ev)
            (addLog e (''Received webhook event: '' @ ev_type ev) ''info'' s)
        \<and> (\<forall>cust s1.
              resolveCustomer e (ev_object ev)
                (addLog e (''Received webhook event: '' @ ev_type ev) ''info'' s) = (Return cust, s1) \<longrightarrow>
              sinkEntries (snd (webhook e req s)) =
                sinkEntries s @
                  [SendGmailAlert (buildFailureData (ev_object ev) cust (now e (clock s1))),
                   UpdateAirtableRecord (buildFailureData (ev_object ev) cust (now e (clock s1)))])
        \<and> (\<forall>err s1.
              resolveCustomer e (ev_object ev)
                (addLog e (''Received webhook event: '' @ ev_type ev) ''info'' s) = (Throw err, s1) \<longrightarrow>
              sinkEntries (snd (webhook e req s)) = sinkEntries s))
    \<and> (ev_type ev = ''charge.failed'' \<longrightarrow>
        snd (webhook e req s) =
          addLog e (''Charge failed: '' @ obj_id (ev_object ev)) ''info''
            (addLog e (''Received webhook event: '' @ ev_type ev) ''info'' s)
        \<and> trace (snd (webhook e req s)) = trace s)
    \<and> (ev_type ev = ''invoice.payment_failed'' \<longrightarrow>
        snd (webhook e req s) =
          addLog e (''Invoice payment failed: '' @ obj_id (ev_object ev)) ''info''
            (addLog e (''Received webhook event: '' @ ev_type ev) ''info'' s)
        \<and> trace (snd (webhook e req s)) = trace s)
    \<and> (ev_type ev \<noteq> ''payment_intent.payment_failed'' \<and> ev_type ev \<noteq> ''charge.failed''
        \<and> ev_type ev \<noteq> ''invoice.payment_failed'' \<longrightarrow>
        snd (webhook e req s) =
          addLog e (''Unhandled event type: '' @ ev_type ev) ''warning''
            (addLog e (''Received webhook event: '' @ ev_type ev) ''info'' s)
        \<and> trace (snd (webhook e req s)) = trace s)"
proof -
  let ?s0 = "addLog e (''Received webhook event: '' @ ev_type ev) ''info'' s"
  note w = webhook_verified [OF assms, of s]
  have pi: "snd (webhook e req s) = processFailedPayment e (ev_object ev) ?s0
      \<and> (\<forall>cust s1. resolveCustomer e (ev_object ev) ?s0 = (Return cust, s1) \<longrightarrow>
            sinkEntries (snd (webhook e req s)) =
              sinkEntries s @
                [SendGmailAlert (buildFailureData (ev_object ev) cust (now e (clock s1))),
                 UpdateAirtableRecord (buildFailureData (ev_object ev) cust (now e (clock s1)))])
      \<and> (\<forall>err s1. resolveCustomer e (ev_object ev) ?s0 = (Throw err, s1) \<longrightarrow>
            sinkEntries (snd (webhook e req s)) = sinkEntries s)"
    if ty: "ev_type ev = ''payment_intent.payment_failed''"
  proof -
    have run: "snd (webhook e req s) = processFailedPayment e (ev_object ev) ?s0"
      using w ty by simp
    have both: "sinkEntries (snd (webhook e req s)) =
        sinkEntries s @
          [SendGmailAlert (buildFailureData (ev_object ev) cust (now e (clock s1))),
           UpdateAirtableRecord (buildFailureData (ev_object ev) cust (now e (clock s1)))]"
      if "resolveCustomer e (ev_object ev) ?s0 = (Return cust, s1)" for cust s1
      using processFailedPayment_sinkEntries_resolved [OF that] by (simp add: run)
    have none: "sinkEntries (snd (webhook e req s)) = sinkEntries s"
      if "resolveCustomer e (ev_object ev) ?s0 = (Throw err, s1)" for err s1
      using processFailedPayment_sinkEntries_thrown [OF that] by (simp add: run)
    from run both none show ?thesis by blast
  qed
  have charge: "ev_type ev = ''charge.failed'' \<longrightarrow>
      snd (webhook e req s) = addLog e (''Charge failed: '' @ obj_id (ev_object ev)) ''info'' ?s0
      \<and> trace (snd (webhook e req s)) = trace s"
    using w by simp
  have invoice: "ev_type ev = ''invoice.payment_failed'' \<longrightarrow>
      snd (webhook e req s) = addLog e (''Invoice payment failed: '' @ obj_id (ev_object ev)) ''info'' ?s0
      \<and> trace (snd (webhook e req s)) = trace s"
    using w by simp
  have other: "ev_type ev \<noteq> ''payment_intent.payment_failed'' \<and> ev_type ev \<noteq> ''charge.failed''
      \<and> ev_type ev \<noteq> ''invoice.payment_failed'' \<longrightarrow>
      snd (webhook e req s) = addLog e (''Unhandled event type: '' @ ev_type ev) ''warning'' ?s0
      \<and> trace (snd (webhook e req s)) = trace s"
    using w by simp
  from pi charge invoice other show ?thesis by blast
qed

theorem webhook_dispatch_by_event_type_witness:
  "sinkEntries (snd (webhook envAllOk (validRequest ''payment_intent.payment_failed'') initialState)) =
     [SendGmailAlert (buildFailureData examplePaymentIntent exampleCustomer (tickClock 1)),
      UpdateAirtableRecord (buildFailureData examplePaymentIntent exampleCustomer (tickClock 1))]
   \<and> trace (snd (webhook envAllOk (validRequest ''charge.failed'') initialState)) = []
   \<and> hd (recentLogs (snd (webhook envAllOk (validRequest ''charge.failed'') initialState))) =
       \<lparr>timestamp = tickClock 1, message = ''Charge failed: pi_3Nabc'', type = ''info''\<rparr>
   \<and> trace (snd (webhook envAllOk (validRequest ''invoice.payment_failed'') initialState)) = []
   \<and> hd (recentLogs (snd (webhook envAllOk (validRequest ''invoice.payment_failed'') initialState))) =
       \<lparr>timestamp = tickClock 1, message = ''Invoice payment failed: pi_3Nabc'', type = ''info''\<rparr>
   \<and> trace (snd (webhook envAllOk (validRequest ''customer.created'') initialState)) = []
   \<and> hd (recentLogs (snd (webhook envAllOk (validRequest ''customer.created'') initialState))) =
       \<lparr>timestamp = tickClock 1, message = ''Unhandled event type: customer.created'',
        type = ''warning''\<rparr>
   \<and> sinkEntries (snd (webhook envLookupFails (validRequest ''payment_intent.payment_failed'') initialState)) = []"
proof -
  have h: "constructEvent envAllOk (req_body (validRequest payload))
      (stripe_signature (validRequest payload)) (STRIPE_WEBHOOK_SECRET envAllOk)
      = Return \<lparr>ev_type = payload, ev_object = examplePaymentIntent\<rparr>" for payload
    by (simp add: envAllOk_def validRequest_def exampleConstructEvent_valid)
  let ?s0 = "addLog envAllOk
      (''Received webhook event: '' @ ev_type \<lparr>ev_type = ''payment_intent.payment_failed'', ev_object = examplePaymentIntent\<rparr>)
      ''info'' initialState"
  have c: "obj_customer examplePaymentIntent = Some ''cus_123''"
    by (simp add: examplePaymentIntent_def)
  have r: "resolveCustomer envAllOk
      (ev_object \<lparr>ev_type = ''payment_intent.payment_failed'', ev_object = examplePaymentIntent\<rparr>) ?s0 =
      (Return exampleCustomer, ?s0\<lparr>trace := trace ?s0 @ [CustomersRetrieve ''cus_123'']\<rparr>)"
    using resolveCustomer_present [OF c, of envAllOk ?s0] by (simp add: envAllOk_def)
  have ty: "ev_type \<lparr>ev_type = ''payment_intent.payment_failed'', ev_object = examplePaymentIntent\<rparr>
      = ''payment_intent.payment_failed''"
    by simp
  from webhook_dispatch_by_event_type [OF h, of "''payment_intent.payment_failed''" initialState] ty r
  have both: "sinkEntries (snd (webhook envAllOk (validRequest ''payment_intent.payment_failed'') initialState)) =
      sinkEntries initialState @
        [SendGmailAlert (buildFailureData
           (ev_object \<lparr>ev_type = ''payment_intent.payment_failed'', ev_object = examplePaymentIntent\<rparr>)
           exampleCustomer
           (now envAllOk (clock (?s0\<lparr>trace := trace ?s0 @ [CustomersRetrieve ''cus_123'']\<rparr>)))),
         UpdateAirtableRecord (buildFailureData
           (ev_object \<lparr>ev_type = ''payment_intent.payment_failed'', ev_object = examplePaymentIntent\<rparr>)
           exampleCustomer
           (now envAllOk (clock (?s0\<lparr>trace := trace ?s0 @ [CustomersRetrieve ''cus_123'']\<rparr>))))]"
    by blast
  have p1: "sinkEntries (snd (webhook envAllOk (validRequest ''payment_intent.payment_failed'') initialState)) =
     [SendGmailAlert (buildFailureData examplePaymentIntent exampleCustomer (tickClock 1)),
      UpdateAirtableRecord (buildFailureData examplePaymentIntent exampleCustomer (tickClock 1))]"
    using both by (simp add: envAllOk_def initialState_def sinkEntries_def)
  have p2: "trace (snd (webhook envAllOk (validRequest ''charge.failed'') initialState)) = []
   \<and> hd (recentLogs (snd (webhook envAllOk (validRequest ''charge.failed'') initialState))) =
       \<lparr>timestamp = tickClock 1, message = ''Charge failed: pi_3Nabc'', type = ''info''\<rparr>"
    using webhook_dispatch_by_event_type [OF h, of "''charge.failed''" initialState]
    by (simp add: envAllOk_def initialState_def addLog_hd examplePaymentIntent_def)
  have p3: "trace (snd (webhook envAllOk (validRequest ''invoice.payment_failed'') initialState)) = []
   \<and> hd (recentLogs (snd (webhook envAllOk (validRequest ''invoice.payment_failed'') initialState))) =
       \<lparr>timestamp = tickClock 1, message = ''Invoice payment failed: pi_3Nabc'', type = ''info''\<rparr>"
    using webhook_dispatch_by_event_type [OF h, of "''invoice.payment_failed''" initialState]
    by (simp add: envAllOk_def initialState_def addLog_hd examplePaymentIntent_def)
  have p4: "trace (snd (webhook envAllOk (validRequest ''customer.created'') initialState)) = []
   \<and> hd (recentLogs (snd (webhook envAllOk (validRequest ''customer.created'') initialState))) =
       \<lparr>timestamp = tickClock 1, message = ''Unhandled event type: customer.created'',
        type = ''warning''\<rparr>"
    using webhook_dispatch_by_event_type [OF h, of "''customer.created''" initialState]
    by (simp add: envAllOk_def initialState_def addLog_hd)
  let ?t0 = "addLog envLookupFails
      (''Received webhook event: '' @ ev_type \<lparr>ev_type = ''payment_intent.payment_failed'', ev_object = examplePaymentIntent\<rparr>)
      ''info'' initialState"
  have h': "constructEvent envLookupFails (req_body (validRequest ''payment_intent.payment_failed''))
      (stripe_signature (validRequest ''payment_intent.payment_failed'')) (STRIPE_WEBHOOK_SECRET envLookupFails)
      = Return \<lparr>ev_type = ''payment_intent.payment_failed'', ev_object = examplePaymentIntent\<rparr>"
    by (simp add: envLookupFails_def validRequest_def exampleConstructEvent_valid)
  have r': "resolveCustomer envLookupFails
      (ev_object \<lparr>ev_type = ''payment_intent.payment_failed'', ev_object = examplePaymentIntent\<rparr>) ?t0 =
      (Throw ''No such customer: cus_123'', ?t0\<lparr>trace := trace ?t0 @ [CustomersRetrieve ''cus_123'']\<rparr>)"
    using resolveCustomer_present [OF c, of envLookupFails ?t0] by (simp add: envLookupFails_def)
  from webhook_dispatch_by_event_type [OF h', of initialState] ty r'
  have none: "sinkEntries (snd (webhook envLookupFails (validRequest ''payment_intent.payment_failed'') initialState))
      = sinkEntries initialState"
    by blast
  have p5: "sinkEntries (snd (webhook envLookupFails (validRequest ''payment_intent.payment_failed'') initialState)) = []"
    using none by (simp add: sinkEntries_def initialState_def)
  from p1 p2 p3 p4 p5 show ?thesis by blast
qed

text \<open>
  The claim as stated (a \<^verbatim>\<open>payment_intent.payment_failed\<close> event always reaches both
  sinks) fails on a verified event whose customer lookup throws.
\<close>

theorem webhook_dispatch_by_event_type_counterexample:
  "constructEvent envLookupFails (req_body (validRequest ''payment_intent.payment_failed''))
      (stripe_signature (validRequest ''payment_intent.payment_failed''))
      (STRIPE_WEBHOOK_SECRET envLookupFails)
     = Return \<lparr>ev_type = ''payment_intent.payment_failed'', ev_object = examplePaymentIntent\<rparr>
   \<and> sinkEntries (snd (webhook envLookupFails (validRequest ''payment_intent.payment_failed'') initialState)) = []
   \<and> sinkCalls (snd (webhook envLookupFails (validRequest ''payment_intent.payment_failed'') initialState)) = []"
proof -
  let ?req = "validRequest ''payment_intent.payment_failed''"
  let ?ev = "\<lparr>ev_type = ''payment_intent.payment_failed'', ev_object = examplePaymentIntent\<rparr>"
  let ?s0 = "addLog envLookupFails (''Received webhook event: '' @ ev_type ?ev) ''info'' initialState"
  have h: "constructEvent envLookupFails (req_body ?req) (stripe_signature ?req)
      (STRIPE_WEBHOOK_SECRET envLookupFails) = Return ?ev"
    by (simp add: envLookupFails_def validRequest_def exampleConstructEvent_valid)
  have c: "obj_customer examplePaymentIntent = Some ''cus_123''"
    by (simp add: examplePaymentIntent_def)
  have r: "resolveCustomer envLookupFails examplePaymentIntent ?s0 =
      (Throw ''No such customer: cus_123'', ?s0\<lparr>trace := trace ?s0 @ [CustomersRetrieve ''cus_123'']\<rparr>)"
    using resolveCustomer_present [OF c, of envLookupFails ?s0] by (simp add: envLookupFails_def)
  have "snd (webhook envLookupFails ?req initialState) =
      addLog envLookupFails (''Error processing failed payment: '' @ ''No such customer: cus_123'') ''error''
        (?s0\<lparr>trace := trace ?s0 @ [CustomersRetrieve ''cus_123'']\<rparr>)"
    using webhook_verified [OF h, of initialState] processFailedPayment_thrown [OF r] by simp
  then show ?thesis
    using h by (simp add: sinkEntries_def sinkCalls_def initialState_def)
qed

section \<open>Customer enrichment\<close>

text \<open>
  Claim C8. With an absent (falsy) customer reference the failure record carries the
  sentinels \<^verbatim>\<open>Unknown\<close> and \<^verbatim>\<open>Unknown Customer\<close>, no lookup is made, and both sinks
  are entered with that record. For a resolved customer, the email defaults to
  \<^verbatim>\<open>Unknown\<close> when the customer has none, and the name falls back to the customer's
  email and then to \<^verbatim>\<open>Unknown Customer\<close>.
\<close>

theorem absent_customer_uses_sentinels:
  "(\<not> truthy (obj_customer paymentIntent) \<longrightarrow>
      resolveCustomer e paymentIntent s = (Return unknownCustomer, s)
      \<and> customerEmail (buildFailureData paymentIntent unknownCustomer ts) = ''Unknown''
      \<and> customerName (buildFailureData paymentIntent unknownCustomer ts) = ''Unknown Customer''
      \<and> lookups (processFailedPayment e paymentIntent s) = lookups s
      \<and> sinkEntries (processFailedPayment e paymentIntent s) =
          sinkEntries s @
            [SendGmailAlert (buildFailureData paymentIntent unknownCustomer (now e (clock s))),
             UpdateAirtableRecord (buildFailureData paymentIntent unknownCustomer (now e (clock s)))])
   \<and> (\<not> truthy (email cust) \<longrightarrow>
        customerEmail (buildFailureData paymentIntent cust ts) = ''Unknown'')
   \<and> (truthy (email cust) \<longrightarrow>
        Some (customerEmail (buildFailureData paymentIntent cust ts)) = email cust)
   \<and> (truthy (name cust) \<longrightarrow>
        Some (customerName (buildFailureData paymentIntent cust ts)) = name cust)
   \<and> (\<not> truthy (name cust) \<and> truthy (email cust) \<longrightarrow>
        Some (customerName (buildFailureData paymentIntent cust ts)) = email cust)
   \<and> (\<not> truthy (name cust) \<and> \<not> truthy (email cust) \<longrightarrow>
        customerName (buildFailureData paymentIntent cust ts) = ''Unknown Customer'')"
proof -
  have absent: "resolveCustomer e paymentIntent s = (Return unknownCustomer, s)
      \<and> lookups (processFailedPayment e paymentIntent s) = lookups s
      \<and> sinkEntries (processFailedPayment e paymentIntent s) =
          sinkEntries s @
            [SendGmailAlert (buildFailureData paymentIntent unknownCustomer (now e (clock s))),
             UpdateAirtableRecord (buildFailureData paymentIntent unknownCustomer (now e (clock s)))]"
    if a: "\<not> truthy (obj_customer paymentIntent)"
    using resolveCustomer_absent [OF a, of e s] lookups_resolveCustomer_absent [OF a, of e s]
      processFailedPayment_sinkEntries_resolved [OF resolveCustomer_absent [OF a, of e s]]
    by simp
  have sentinel:
    "customerEmail (buildFailureData paymentIntent unknownCustomer ts) = ''Unknown''"
    "customerName (buildFailureData paymentIntent unknownCustomer ts) = ''Unknown Customer''"
    by (simp_all add: buildFailureData_def unknownCustomer_def js_or_str_def js_or_def truthy_def)
  have fields:
    "\<not> truthy (email cust) \<longrightarrow> customerEmail (buildFailureData paymentIntent cust ts) = ''Unknown''"
    "truthy (email cust) \<longrightarrow> Some (customerEmail (buildFailureData paymentIntent cust ts)) = email cust"
    "truthy (name cust) \<longrightarrow> Some (customerName (buildFailureData paymentIntent cust ts)) = name cust"
    "\<not> truthy (name cust) \<and> truthy (email cust) \<longrightarrow>
       Some (customerName (buildFailureData paymentIntent cust ts)) = email cust"
    "\<not> truthy (name cust) \<and> \<not> truthy (email cust) \<longrightarrow>
       customerName (buildFailureData paymentIntent cust ts) = ''Unknown Customer''"
    by (auto simp: buildFailureData_def js_or_str_def js_or_def truthy_def split: option.splits)
  show ?thesis using absent sentinel fields by blast
qed

theorem absent_customer_uses_sentinels_witness:
  "resolveCustomer envAllOk anonymousPaymentIntent initialState = (Return unknownCustomer, initialState)
   \<and> lookups (processFailedPayment envAllOk anonymousPaymentIntent initialState) = []
   \<and> sinkEntries (processFailedPayment envAllOk anonymousPaymentIntent initialState) =
       [SendGmailAlert (buildFailureData anonymousPaymentIntent unknownCustomer (tickClock 0)),
        UpdateAirtableRecord (buildFailureData anonymousPaymentIntent unknownCustomer (tickClock 0))]
   \<and> customerEmail (buildFailureData anonymousPaymentIntent unknownCustomer (tickClock 0)) = ''Unknown''
   \<and> customerName (buildFailureData anonymousPaymentIntent unknownCustomer (tickClock 0)) = ''Unknown Customer''
   \<and> customerEmail (buildFailureData examplePaymentIntent \<lparr>email = None, name = Some ''Jo Doe''\<rparr> []) = ''Unknown''
   \<and> customerName (buildFailureData examplePaymentIntent \<lparr>email = Some ''jo@example.com'', name = None\<rparr> [])
       = ''jo@example.com''
   \<and> customerName (buildFailureData examplePaymentIntent \<lparr>email = None, name = Some ''''\<rparr> [])
       = ''Unknown Customer''
   \<and> customerEmail (buildFailureData examplePaymentIntent exampleCustomer []) = ''jo@example.com''
   \<and> customerName (buildFailureData examplePaymentIntent exampleCustomer []) = ''Jo Doe''"
proof -
  have a: "\<not> truthy (obj_customer anonymousPaymentIntent)"
    by (simp add: anonymousPaymentIntent_def truthy_def)
  note absent = absent_customer_uses_sentinels
    [where paymentIntent = anonymousPaymentIntent and e = envAllOk and s = initialState
       and ts = "tickClock 0" and cust = unknownCustomer]
  note noEmail = absent_customer_uses_sentinels
    [where paymentIntent = examplePaymentIntent and e = envAllOk and s = initialState
       and ts = "[]" and cust = "\<lparr>email = None, name = Some ''Jo Doe''\<rparr>"]
  note noName = absent_customer_uses_sentinels
    [where paymentIntent = examplePaymentIntent and e = envAllOk and s = initialState
       and ts = "[]" and cust = "\<lparr>email = Some ''jo@example.com'', name = None\<rparr>"]
  note neither = absent_customer_uses_sentinels
    [where paymentIntent = examplePaymentIntent and e = envAllOk and s = initialState
       and ts = "[]" and cust = "\<lparr>email = None, name = Some ''''\<rparr>"]
  have p1: "resolveCustomer envAllOk anonymousPaymentIntent initialState = (Return unknownCustomer, initialState)
   \<and> lookups (processFailedPayment envAllOk anonymousPaymentIntent initialState) = []
   \<and> sinkEntries (processFailedPayment envAllOk anonymousPaymentIntent initialState) =
       [SendGmailAlert (buildFailureData anonymousPaymentIntent unknownCustomer (tickClock 0)),
        UpdateAirtableRecord (buildFailureData anonymousPaymentIntent unknownCustomer (tickClock 0))]
   \<and> customerEmail (buildFailureData anonymousPaymentIntent unknownCustomer (tickClock 0)) = ''Unknown''
   \<and> customerName (buildFailureData anonymousPaymentIntent unknownCustomer (tickClock 0)) = ''Unknown Customer''"
    using absent a
    by (simp add: envAllOk_def initialState_def lookups_def sinkEntries_def)
  have p2: "customerEmail (buildFailureData examplePaymentIntent \<lparr>email = None, name = Some ''Jo Doe''\<rparr> []) = ''Unknown''"
    using noEmail by (simp add: truthy_def)
  have p3: "customerName (buildFailureData examplePaymentIntent \<lparr>email = Some ''jo@example.com'', name = None\<rparr> [])
       = ''jo@example.com''"
    using noName by (simp add: truthy_def)
  have p4: "customerName (buildFailureData examplePaymentIntent \<lparr>email = None, name = Some ''''\<rparr> [])
       = ''Unknown Customer''"
    using neither by (simp add: truthy_def)
  note full = absent_customer_uses_sentinels
    [where paymentIntent = examplePaymentIntent and e = envAllOk and s = initialState
       and ts = "[]" and cust = exampleCustomer]
  have p5: "customerEmail (buildFailureData examplePaymentIntent exampleCustomer []) = ''jo@example.com''
      \<and> customerName (buildFailureData examplePaymentIntent exampleCustomer []) = ''Jo Doe''"
    using full by (simp add: truthy_def exampleCustomer_def)
  from p1 p2 p3 p4 p5 show ?thesis by blast
qed

text \<open>
  Claim C3, amended. When the customer reference is present and the lookup throws, the
  error is caught by the handler around the whole processing: one entry of severity
  \<^verbatim>\<open>error\<close> with the message of the error is appended, the lookup is the only
  external call, no failure record reaches a sink and neither sink is entered.
\<close>

theorem lookup_failure_skips_both_sinks:
  assumes "obj_customer paymentIntent = Some cid" and "cid \<noteq> []"
    and "customers_retrieve e cid = Throw err"
  shows "processFailedPayment e paymentIntent s =
           addLog e (''Error processing failed payment: '' @ err) ''error''
             (s\<lparr>trace := trace s @ [CustomersRetrieve cid]\<rparr>)
    \<and> trace (processFailedPayment e paymentIntent s) = trace s @ [CustomersRetrieve cid]
    \<and> sinkEntries (processFailedPayment e paymentIntent s) = sinkEntries s
    \<and> sinkCalls (processFailedPayment e paymentIntent s) = sinkCalls s
    \<and> hd (recentLogs (processFailedPayment e paymentIntent s)) =
        \<lparr>timestamp = now e (clock s),
         message = ''Error processing failed payment: '' @ err, type = ''error''\<rparr>"
proof -
  have r: "resolveCustomer e paymentIntent s =
      (Throw err, s\<lparr>trace := trace s @ [CustomersRetrieve cid]\<rparr>)"
    using resolveCustomer_present [OF assms(1,2), of e s] assms(3) by simp
  show ?thesis
    using processFailedPayment_thrown [OF r]
    by (simp add: sinkEntries_def sinkCalls_def addLog_hd)
qed

theorem lookup_failure_skips_both_sinks_witness:
  "trace (processFailedPayment envLookupFails examplePaymentIntent initialState) =
     [CustomersRetrieve ''cus_123'']
   \<and> hd (recentLogs (processFailedPayment envLookupFails examplePaymentIntent initialState)) =
       \<lparr>timestamp = tickClock 0,
        message = ''Error processing failed payment: No such customer: cus_123'', type = ''error''\<rparr>"
proof -
  have c: "obj_customer examplePaymentIntent = Some ''cus_123''"
    by (simp add: examplePaymentIntent_def)
  have n: "''cus_123'' \<noteq> []" by simp
  have l: "customers_retrieve envLookupFails ''cus_123'' = Throw ''No such customer: cus_123''"
    by (simp add: envLookupFails_def)
  show ?thesis
    using lookup_failure_skips_both_sinks [OF c n l, of initialState]
    by (simp add: initialState_def envLookupFails_def addLog_hd)
qed

text \<open>
  The claim as stated (processing continues with the sentinels and both sinks are
  invoked) fails: with a lookup that throws, no sink is entered or called.
\<close>

theorem lookup_failure_skips_both_sinks_counterexample:
  "obj_customer examplePaymentIntent = Some ''cus_123''
   \<and> customers_retrieve envLookupFails ''cus_123'' = Throw ''No such customer: cus_123''
   \<and> sinkEntries (processFailedPayment envLookupFails examplePaymentIntent initialState) = []
   \<and> sinkCalls (processFailedPayment envLookupFails examplePaymentIntent initialState) = []
   \<and> trace (processFailedPayment envLookupFails examplePaymentIntent initialState) =
       [CustomersRetrieve ''cus_123'']"
proof -
  have c: "obj_customer examplePaymentIntent = Some ''cus_123''"
    by (simp add: examplePaymentIntent_def)
  have l: "customers_retrieve envLookupFails ''cus_123'' = Throw ''No such customer: cus_123''"
    by (simp add: envLookupFails_def)
  have r: "resolveCustomer envLookupFails examplePaymentIntent initialState =
      (Throw ''No such customer: cus_123'',
       initialState\<lparr>trace := trace initialState @ [CustomersRetrieve ''cus_123'']\<rparr>)"
    using resolveCustomer_present [OF c, of envLookupFails initialState] l by simp
  show ?thesis
    using c l processFailedPayment_thrown [OF r]
    by (simp add: sinkEntries_def sinkCalls_def initialState_def)
qed

text \<open>
  Claim C9. An error thrown inside the \<^verbatim>\<open>try\<close> block of \<^verbatim>\<open>processFailedPayment\<close>
  is caught: an entry of severity \<^verbatim>\<open>error\<close> is appended, the function returns, and
  the webhook still answers 200 with \<^verbatim>\<open>{received: true}\<close>, although both sinks were
  skipped for that event.
\<close>

theorem pipeline_errors_are_caught:
  assumes "constructEvent e (req_body req) (stripe_signature req) (STRIPE_WEBHOOK_SECRET e) = Return ev"
    and "ev_type ev = ''payment_intent.payment_failed''"
    and "processFailedPayment_try e (ev_object ev)
           (addLog e (''Received webhook event: '' @ ev_type ev) ''info'' s) = (Throw err, s1)"
  shows "processFailedPayment e (ev_object ev)
           (addLog e (''Received webhook event: '' @ ev_type ev) ''info'' s) =
         addLog e (''Error processing failed payment: '' @ err) ''error'' s1
    \<and> webhook e req s =
        (\<lparr>status = 200, body = Json [(''received'', True)]\<rparr>,
         addLog e (''Error processing failed payment: '' @ err) ''error'' s1)
    \<and> hd (recentLogs (snd (webhook e req s))) =
        \<lparr>timestamp = now e (clock s1),
         message = ''Error processing failed payment: '' @ err, type = ''error''\<rparr>
    \<and> sinkEntries (snd (webhook e req s)) = sinkEntries s"
proof -
  let ?s0 = "addLog e (''Received webhook event: '' @ ev_type ev) ''info'' s"
  have caught: "processFailedPayment e (ev_object ev) ?s0 =
      addLog e (''Error processing failed payment: '' @ err) ''error'' s1"
    using assms(3) by (simp add: processFailedPayment_def)
  have w: "webhook e req s =
      (\<lparr>status = 200, body = Json [(''received'', True)]\<rparr>,
       addLog e (''Error processing failed payment: '' @ err) ''error'' s1)"
    using assms(1,2) caught by (simp add: webhook_def Let_def)
  have "resolveCustomer e (ev_object ev) ?s0 = (Throw err, s1)"
    using assms(3) by (rule processFailedPayment_try_throws_only_in_lookup)
  then have "sinkEntries s1 = sinkEntries ?s0"
    using resolveCustomer_sinkEntries [of e "ev_object ev" ?s0] by simp
  then have skipped: "sinkEntries s1 = sinkEntries s" by simp
  show ?thesis using caught w skipped by (simp add: addLog_hd)
qed

theorem pipeline_errors_are_caught_witness:
  "webhook envLookupFails (validRequest ''payment_intent.payment_failed'') initialState =
     (\<lparr>status = 200, body = Json [(''received'', True)]\<rparr>,
      addLog envLookupFails ''Error processing failed payment: No such customer: cus_123'' ''error''
        ((addLog envLookupFails ''Received webhook event: payment_intent.payment_failed'' ''info'' initialState)
           \<lparr>trace := [CustomersRetrieve ''cus_123'']\<rparr>))
   \<and> sinkEntries (snd (webhook envLookupFails (validRequest ''payment_intent.payment_failed'') initialState)) = []"
proof -
  let ?req = "validRequest ''payment_intent.payment_failed''"
  let ?ev = "\<lparr>ev_type = ''payment_intent.payment_failed'', ev_object = examplePaymentIntent\<rparr>"
  let ?s0 = "addLog envLookupFails ''Received webhook event: payment_intent.payment_failed'' ''info'' initialState"
  have h1: "constructEvent envLookupFails (req_body ?req) (stripe_signature ?req)
      (STRIPE_WEBHOOK_SECRET envLookupFails) = Return ?ev"
    by (simp add: envLookupFails_def validRequest_def exampleConstructEvent_valid)
  have h2: "ev_type ?ev = ''payment_intent.payment_failed''" by simp
  have h3: "processFailedPayment_try envLookupFails (ev_object ?ev)
      (addLog envLookupFails (''Received webhook event: '' @ ev_type ?ev) ''info'' initialState)
      = (Throw ''No such customer: cus_123'', ?s0\<lparr>trace := [CustomersRetrieve ''cus_123'']\<rparr>)"
    by (simp add: processFailedPayment_try_def resolveCustomer_def examplePaymentIntent_def
        envLookupFails_def initialState_def)
  show ?thesis
    using pipeline_errors_are_caught [OF h1 h2 h3]
    by (simp add: sinkEntries_def initialState_def)
qed

section \<open>The email dispatcher and the record-store writer\<close>

text \<open>
  Claim C6. \<^verbatim>\<open>sendGmailAlert\<close> returns a boolean: an error of the auth handshake, of
  the rendering or of the send is caught, logged with severity \<^verbatim>\<open>error\<close> and its
  message, and becomes \<open>False\<close>. Whatever the dispatcher returns, the record-store
  writer is entered next for the same failure record, and the row is handed to Airtable.
\<close>

theorem email_dispatcher_never_throws:
  "(auth_getClient e = Throw err \<longrightarrow>
      sendGmailAlert e fd s =
        (False, addLog e (''Failed to send email alert: '' @ err) ''error''
           (s\<lparr>trace := trace s @ [SendGmailAlert fd, AuthGetClient]\<rparr>)))
   \<and> (auth_getClient e = Return u \<and> currency fd = None \<longrightarrow>
      sendGmailAlert e fd s =
        (False, addLog e (''Failed to send email alert: '' @ typeError_toUpperCase) ''error''
           (s\<lparr>trace := trace s @ [SendGmailAlert fd, AuthGetClient]\<rparr>)))
   \<and> (auth_getClient e = Return u \<and> emailContent e fd = Return content
        \<and> messages_send e (base64url content) = Throw err \<longrightarrow>
      sendGmailAlert e fd s =
        (False, addLog e (''Failed to send email alert: '' @ err) ''error''
           (s\<lparr>trace := trace s @ [SendGmailAlert fd, AuthGetClient, MessagesSend (base64url content)]\<rparr>)))
   \<and> (auth_getClient e = Return u \<and> emailContent e fd = Return content
        \<and> messages_send e (base64url content) = Return v \<longrightarrow>
      fst (sendGmailAlert e fd s) = True)
   \<and> (fst (sendGmailAlert e fd s) = False \<longrightarrow>
      type (hd (recentLogs (snd (sendGmailAlert e fd s)))) = ''error'')
   \<and> (resolveCustomer e paymentIntent s = (Return cust, s1) \<longrightarrow>
      sinkEntries (processFailedPayment e paymentIntent s) =
        sinkEntries s @ [SendGmailAlert (buildFailureData paymentIntent cust (now e (clock s1))),
                         UpdateAirtableRecord (buildFailureData paymentIntent cust (now e (clock s1)))])
   \<and> (resolveCustomer e paymentIntent s = (Return cust, s1)
        \<and> airtableFields (buildFailureData paymentIntent cust (now e (clock s1))) = Return row \<longrightarrow>
      AirtableCreate row \<in> set (trace (processFailedPayment e paymentIntent s)))"
proof -
  have logged: "fst (sendGmailAlert e fd s) = False \<longrightarrow>
      type (hd (recentLogs (snd (sendGmailAlert e fd s)))) = ''error''"
    using sendGmailAlert_false_logged [of e fd s] by blast
  show ?thesis
    using sendGmailAlert_auth_fails [of e err fd s]
      sendGmailAlert_render_fails [of e u fd s]
      sendGmailAlert_send_fails [of e u fd content err s]
      sendGmailAlert_sent [of e u fd content v s]
      logged
      processFailedPayment_sinkEntries_resolved [of e paymentIntent s cust s1]
      processFailedPayment_create_called [of e paymentIntent s cust s1 row]
    by simp
qed

theorem email_dispatcher_never_throws_witness:
  "fst (sendGmailAlert envEmailFails exampleFailure initialState) = False
   \<and> hd (recentLogs (snd (sendGmailAlert envEmailFails exampleFailure initialState))) =
       \<lparr>timestamp = tickClock 0,
        message = ''Failed to send email alert: Request failed with status code 500'',
        type = ''error''\<rparr>
   \<and> sinkEntries (processFailedPayment envEmailFails examplePaymentIntent initialState) =
       [SendGmailAlert (buildFailureData examplePaymentIntent exampleCustomer (tickClock 0)),
        UpdateAirtableRecord (buildFailureData examplePaymentIntent exampleCustomer (tickClock 0))]
   \<and> AirtableCreate (exampleRow\<lparr>Failed_At := tickClock 0\<rparr>)
       \<in> set (trace (processFailedPayment envEmailFails examplePaymentIntent initialState))
   \<and> fst (sendGmailAlert envSinksFail exampleFailure initialState) = False
   \<and> message (hd (recentLogs (snd (sendGmailAlert envSinksFail exampleFailure initialState)))) =
       ''Failed to send email alert: invalid_grant''
   \<and> fst (sendGmailAlert envAllOk (exampleFailure\<lparr>currency := None\<rparr>) initialState) = False
   \<and> message (hd (recentLogs (snd (sendGmailAlert envAllOk (exampleFailure\<lparr>currency := None\<rparr>) initialState)))) =
       ''Failed to send email alert: '' @ typeError_toUpperCase
   \<and> fst (sendGmailAlert envAllOk exampleFailure initialState) = True"
proof -
  let ?s1 = "initialState\<lparr>trace := trace initialState @ [CustomersRetrieve ''cus_123'']\<rparr>"
  let ?fd = "buildFailureData examplePaymentIntent exampleCustomer (tickClock 0)"
  have auth: "auth_getClient envEmailFails = Return ()" by (simp add: envEmailFails_def)
  obtain content where content: "emailContent envEmailFails exampleFailure = Return content"
    by (simp add: emailContent_def exampleFailure_fields)
  have send: "messages_send envEmailFails (base64url content) = Throw ''Request failed with status code 500''"
    by (simp add: envEmailFails_def)
  have c: "obj_customer examplePaymentIntent = Some ''cus_123''"
    by (simp add: examplePaymentIntent_def)
  have r: "resolveCustomer envEmailFails examplePaymentIntent initialState = (Return exampleCustomer, ?s1)"
    using resolveCustomer_present [OF c, of envEmailFails initialState]
    by (simp add: envEmailFails_def)
  have clk: "now envEmailFails (clock ?s1) = tickClock 0"
    by (simp add: envEmailFails_def initialState_def)
  have row: "airtableFields (buildFailureData examplePaymentIntent exampleCustomer (now envEmailFails (clock ?s1)))
      = Return (exampleRow\<lparr>Failed_At := tickClock 0\<rparr>)"
    by (simp add: envEmailFails_def initialState_def airtableFields_def exampleRow_def
        buildFailureData_def examplePaymentIntent_def exampleCustomer_def js_or_str_def
        js_or_def truthy_def toUpperCase_usd)
  note inst = email_dispatcher_never_throws
    [where e = envEmailFails and fd = exampleFailure and s = initialState and u = "()"
       and content = content and err = "''Request failed with status code 500''"
       and paymentIntent = examplePaymentIntent and cust = exampleCustomer and ?s1.0 = ?s1
       and row = "exampleRow\<lparr>Failed_At := tickClock 0\<rparr>"]
  from inst auth content send have failed:
    "sendGmailAlert envEmailFails exampleFailure initialState =
       (False, addLog envEmailFails (''Failed to send email alert: '' @ ''Request failed with status code 500'') ''error''
          (initialState\<lparr>trace := trace initialState @ [SendGmailAlert exampleFailure, AuthGetClient,
             MessagesSend (base64url content)]\<rparr>))"
    by blast
  from inst r have entered:
    "sinkEntries (processFailedPayment envEmailFails examplePaymentIntent initialState) =
       sinkEntries initialState @
         [SendGmailAlert (buildFailureData examplePaymentIntent exampleCustomer (now envEmailFails (clock ?s1))),
          UpdateAirtableRecord (buildFailureData examplePaymentIntent exampleCustomer (now envEmailFails (clock ?s1)))]"
    by blast
  from inst r row have created:
    "AirtableCreate (exampleRow\<lparr>Failed_At := tickClock 0\<rparr>)
       \<in> set (trace (processFailedPayment envEmailFails examplePaymentIntent initialState))"
    by blast
  have p1: "fst (sendGmailAlert envEmailFails exampleFailure initialState) = False"
    using failed by simp
  have p2: "hd (recentLogs (snd (sendGmailAlert envEmailFails exampleFailure initialState))) =
       \<lparr>timestamp = tickClock 0,
        message = ''Failed to send email alert: Request failed with status code 500'',
        type = ''error''\<rparr>"
    using failed by (simp add: addLog_hd envEmailFails_def initialState_def)
  have p3: "sinkEntries (processFailedPayment envEmailFails examplePaymentIntent initialState) =
       [SendGmailAlert ?fd, UpdateAirtableRecord ?fd]"
    using entered by (simp add: envEmailFails_def sinkEntries_def initialState_def)
  have authFails: "auth_getClient envSinksFail = Throw ''invalid_grant''"
    by (simp add: envSinksFail_def)
  from email_dispatcher_never_throws
    [where e = envSinksFail and fd = exampleFailure and s = initialState
       and err = "''invalid_grant''"] authFails
  have "sendGmailAlert envSinksFail exampleFailure initialState =
      (False, addLog envSinksFail (''Failed to send email alert: '' @ ''invalid_grant'') ''error''
         (initialState\<lparr>trace := trace initialState @ [SendGmailAlert exampleFailure, AuthGetClient]\<rparr>))"
    by blast
  then have p4: "fst (sendGmailAlert envSinksFail exampleFailure initialState) = False
      \<and> message (hd (recentLogs (snd (sendGmailAlert envSinksFail exampleFailure initialState)))) =
          ''Failed to send email alert: invalid_grant''"
    by (simp add: addLog_hd)
  have authOk: "auth_getClient envAllOk = Return ()" by (simp add: envAllOk_def)
  have noCurrency: "currency (exampleFailure\<lparr>currency := None\<rparr>) = None" by simp
  from email_dispatcher_never_throws
    [where e = envAllOk and fd = "exampleFailure\<lparr>currency := None\<rparr>" and s = initialState
       and u = "()"] authOk noCurrency
  have "sendGmailAlert envAllOk (exampleFailure\<lparr>currency := None\<rparr>) initialState =
      (False, addLog envAllOk (''Failed to send email alert: '' @ typeError_toUpperCase) ''error''
         (initialState\<lparr>trace := trace initialState
            @ [SendGmailAlert (exampleFailure\<lparr>currency := None\<rparr>), AuthGetClient]\<rparr>))"
    by blast
  then have p5: "fst (sendGmailAlert envAllOk (exampleFailure\<lparr>currency := None\<rparr>) initialState) = False
      \<and> message (hd (recentLogs (snd (sendGmailAlert envAllOk (exampleFailure\<lparr>currency := None\<rparr>) initialState)))) =
          ''Failed to send email alert: '' @ typeError_toUpperCase"
    by (simp add: addLog_hd)
  obtain body where body: "emailContent envAllOk exampleFailure = Return body"
    by (simp add: emailContent_def exampleFailure_fields)
  have sendOk: "messages_send envAllOk (base64url body) = Return ()"
    by (simp add: envAllOk_def)
  from email_dispatcher_never_throws
    [where e = envAllOk and fd = exampleFailure and s = initialState and u = "()"
       and content = body and v = "()"] authOk body sendOk
  have p6: "fst (sendGmailAlert envAllOk exampleFailure initialState) = True"
    by blast
  from p1 p2 p3 created p4 p5 p6 show ?thesis by blast
qed

text \<open>
  Claim C10. The email body shows the amount in minor units, as the decimal digits of the
  integer, followed by the upper-cased currency: the body depends on the amount at that
  one place only, and once the auth handshake has returned it is this body, encoded,
  that \<^verbatim>\<open>sendGmailAlert\<close> hands to \<^verbatim>\<open>gmail.users.messages.send\<close>. The division by 100
  happens in the record-store row alone, and it is this row that
  \<^verbatim>\<open>updateAirtableRecord\<close> hands to Airtable's \<^verbatim>\<open>create\<close>: for 2999 the email sent
  shows 2999 and the record store receives 29.99.
\<close>

theorem email_shows_minor_units_store_gets_major_units:
  assumes "currency fd = Some cur"
  shows "(\<exists>pre post. \<forall>a.
            emailContent e (fd\<lparr>amount := a\<rparr>) =
              Return (pre @ numToString a @ '' '' @ toUpperCase cur @ post)
            \<and> (\<forall>u. auth_getClient e = Return u \<longrightarrow>
                 trace (snd (sendGmailAlert e (fd\<lparr>amount := a\<rparr>) s)) =
                   trace s @
                     [SendGmailAlert (fd\<lparr>amount := a\<rparr>), AuthGetClient,
                      MessagesSend
                        (base64url (pre @ numToString a @ '' '' @ toUpperCase cur @ post))]))
    \<and> (\<exists>row. airtableFields fd = Return row
          \<and> Amount row = of_int (amount fd) / 100 \<and> Currency row = toUpperCase cur
          \<and> trace (snd (updateAirtableRecord e fd s)) =
              trace s @ [UpdateAirtableRecord fd, AirtableCreate row])"
proof -
  let ?pre = "concat (take 23 (emailParts e fd cur))"
  let ?post = "concat (drop 26 (emailParts e fd cur))"
  have body: "emailContent e (fd\<lparr>amount := a\<rparr>) =
      Return (?pre @ numToString a @ '' '' @ toUpperCase cur @ ?post)" for a
    using assms by (simp add: emailContent_def emailParts_amount)
  have sent: "trace (snd (sendGmailAlert e (fd\<lparr>amount := a\<rparr>) s)) =
      trace s @
        [SendGmailAlert (fd\<lparr>amount := a\<rparr>), AuthGetClient,
         MessagesSend (base64url (?pre @ numToString a @ '' '' @ toUpperCase cur @ ?post))]"
    if "auth_getClient e = Return u" for a u
    using that body [of a] by (rule sendGmailAlert_trace_rendered)
  from body sent have email: "\<exists>pre post. \<forall>a.
      emailContent e (fd\<lparr>amount := a\<rparr>) =
        Return (pre @ numToString a @ '' '' @ toUpperCase cur @ post)
      \<and> (\<forall>u. auth_getClient e = Return u \<longrightarrow>
           trace (snd (sendGmailAlert e (fd\<lparr>amount := a\<rparr>) s)) =
             trace s @
               [SendGmailAlert (fd\<lparr>amount := a\<rparr>), AuthGetClient,
                MessagesSend
                  (base64url (pre @ numToString a @ '' '' @ toUpperCase cur @ post))])"
    by blast
  let ?row = "\<lparr>Payment_ID = paymentId fd, Customer_Email = customerEmail fd,
      Customer_Name = customerName fd, Amount = of_int (amount fd) / 100,
      Currency = toUpperCase cur, Failure_Reason = failureReason fd,
      Failed_At = failedAt fd, Status = ''Failed''\<rparr>"
  have f: "airtableFields fd = Return ?row"
    using assms by (rule airtableFields_present)
  have created: "trace (snd (updateAirtableRecord e fd s)) =
      trace s @ [UpdateAirtableRecord fd, AirtableCreate ?row]"
    using f by (rule updateAirtableRecord_calls_create)
  have store: "\<exists>row. airtableFields fd = Return row
      \<and> Amount row = of_int (amount fd) / 100 \<and> Currency row = toUpperCase cur
      \<and> trace (snd (updateAirtableRecord e fd s)) =
          trace s @ [UpdateAirtableRecord fd, AirtableCreate row]"
    by (rule exI [of _ ?row]) (use f created in simp)
  from email store show ?thesis by blast
qed

theorem email_shows_minor_units_store_gets_major_units_witness:
  "(\<exists>body. emailContent envAllOk exampleFailure = Return body \<and> sublist ''2999 USD'' body
      \<and> trace (snd (sendGmailAlert envAllOk exampleFailure initialState)) =
          [SendGmailAlert exampleFailure, AuthGetClient, MessagesSend (base64url body)])
   \<and> (\<exists>row. airtableFields exampleFailure = Return row \<and> Amount row = 29.99
         \<and> Currency row = ''USD''
         \<and> trace (snd (updateAirtableRecord envAllOk exampleFailure initialState)) =
             [UpdateAirtableRecord exampleFailure, AirtableCreate row])"
proof -
  have cur: "currency exampleFailure = Some ''usd''" by (rule exampleFailure_fields)
  have same: "exampleFailure\<lparr>amount := 2999\<rparr> = exampleFailure"
    by (simp add: exampleFailure_fields)
  have auth: "auth_getClient envAllOk = Return ()" by (simp add: envAllOk_def)
  have empty: "trace initialState = []" by (simp add: initialState_def)
  note inst = email_shows_minor_units_store_gets_major_units [OF cur, of envAllOk initialState]
  from inst obtain pre post where both:
    "\<forall>a. emailContent envAllOk (exampleFailure\<lparr>amount := a\<rparr>) =
           Return (pre @ numToString a @ '' '' @ toUpperCase ''usd'' @ post)
         \<and> (\<forall>u. auth_getClient envAllOk = Return u \<longrightarrow>
              trace (snd (sendGmailAlert envAllOk (exampleFailure\<lparr>amount := a\<rparr>) initialState)) =
                trace initialState @
                  [SendGmailAlert (exampleFailure\<lparr>amount := a\<rparr>), AuthGetClient,
                   MessagesSend
                     (base64url (pre @ numToString a @ '' '' @ toUpperCase ''usd'' @ post))])"
    by blast
  from both have "emailContent envAllOk (exampleFailure\<lparr>amount := 2999\<rparr>) =
       Return (pre @ numToString 2999 @ '' '' @ toUpperCase ''usd'' @ post)"
    by blast
  then have body: "emailContent envAllOk exampleFailure = Return (pre @ ''2999 USD'' @ post)"
    by (simp add: same numToString_2999 toUpperCase_usd)
  from both auth have
    "trace (snd (sendGmailAlert envAllOk (exampleFailure\<lparr>amount := 2999\<rparr>) initialState)) =
       trace initialState @
         [SendGmailAlert (exampleFailure\<lparr>amount := 2999\<rparr>), AuthGetClient,
          MessagesSend
            (base64url (pre @ numToString 2999 @ '' '' @ toUpperCase ''usd'' @ post))]"
    by blast
  then have sent: "trace (snd (sendGmailAlert envAllOk exampleFailure initialState)) =
      [SendGmailAlert exampleFailure, AuthGetClient, MessagesSend (base64url (pre @ ''2999 USD'' @ post))]"
    by (simp add: same numToString_2999 toUpperCase_usd empty)
  have "sublist ''2999 USD'' (pre @ ''2999 USD'' @ post)"
    by (rule sublist_appendI)
  with body sent have email: "\<exists>body. emailContent envAllOk exampleFailure = Return body
      \<and> sublist ''2999 USD'' body
      \<and> trace (snd (sendGmailAlert envAllOk exampleFailure initialState)) =
          [SendGmailAlert exampleFailure, AuthGetClient, MessagesSend (base64url body)]"
    by blast
  from inst obtain row where "airtableFields exampleFailure = Return row"
    "Amount row = of_int (amount exampleFailure) / 100" "Currency row = toUpperCase ''usd''"
    "trace (snd (updateAirtableRecord envAllOk exampleFailure initialState)) =
       trace initialState @ [UpdateAirtableRecord exampleFailure, AirtableCreate row]"
    by blast
  then have store: "\<exists>row. airtableFields exampleFailure = Return row \<and> Amount row = 29.99
      \<and> Currency row = ''USD''
      \<and> trace (snd (updateAirtableRecord envAllOk exampleFailure initialState)) =
          [UpdateAirtableRecord exampleFailure, AirtableCreate row]"
    by (simp add: exampleFailure_fields toUpperCase_usd empty)
  from email store show ?thesis by blast
qed

text \<open>
  Claim C5, amended. For a failure record with a currency, the writer hands Airtable one
  row whose Amount is the amount divided by 100, whose Currency is the upper-cased
  currency and whose Status is \<^verbatim>\<open>Failed\<close>. It returns the created row object (which
  carries the row's identifier) on success and \<^verbatim>\<open>null\<close> on failure, after logging; it
  never throws.
\<close>

theorem record_store_writer_row_and_result:
  assumes "currency fd = Some cur"
  shows "\<exists>row. airtableFields fd = Return row
    \<and> Amount row = of_int (amount fd) / 100
    \<and> Currency row = toUpperCase cur
    \<and> Status row = ''Failed''
    \<and> Payment_ID row = paymentId fd \<and> Customer_Email row = customerEmail fd
    \<and> Customer_Name row = customerName fd \<and> Failure_Reason row = failureReason fd
    \<and> Failed_At row = failedAt fd
    \<and> trace (snd (updateAirtableRecord e fd s)) = trace s @ [UpdateAirtableRecord fd, AirtableCreate row]
    \<and> (\<forall>created. airtable_create e row = Return created \<longrightarrow>
          fst (updateAirtableRecord e fd s) = JRecord created
          \<and> hd (recentLogs (snd (updateAirtableRecord e fd s))) =
              \<lparr>timestamp = now e (clock s),
               message = ''Created Airtable record for failed payment: '' @ row_id created,
               type = ''info''\<rparr>)
    \<and> (\<forall>err. airtable_create e row = Throw err \<longrightarrow>
          fst (updateAirtableRecord e fd s) = JNull
          \<and> hd (recentLogs (snd (updateAirtableRecord e fd s))) =
              \<lparr>timestamp = now e (clock s),
               message = ''Failed to create Airtable record: '' @ err, type = ''error''\<rparr>)"
proof -
  let ?row = "\<lparr>Payment_ID = paymentId fd, Customer_Email = customerEmail fd,
      Customer_Name = customerName fd, Amount = of_int (amount fd) / 100,
      Currency = toUpperCase cur, Failure_Reason = failureReason fd,
      Failed_At = failedAt fd, Status = ''Failed''\<rparr>"
  have f: "airtableFields fd = Return ?row"
    using assms by (rule airtableFields_present)
  have t: "trace (snd (updateAirtableRecord e fd s)) = trace s @ [UpdateAirtableRecord fd, AirtableCreate ?row]"
    using f by (rule updateAirtableRecord_calls_create)
  have ok: "fst (updateAirtableRecord e fd s) = JRecord created
      \<and> hd (recentLogs (snd (updateAirtableRecord e fd s))) =
          \<lparr>timestamp = now e (clock s),
           message = ''Created Airtable record for failed payment: '' @ row_id created,
           type = ''info''\<rparr>"
    if "airtable_create e ?row = Return created" for created
    using updateAirtableRecord_created [OF f that, of s] by (simp add: addLog_hd)
  have ko: "fst (updateAirtableRecord e fd s) = JNull
      \<and> hd (recentLogs (snd (updateAirtableRecord e fd s))) =
          \<lparr>timestamp = now e (clock s),
           message = ''Failed to create Airtable record: '' @ err, type = ''error''\<rparr>"
    if "airtable_create e ?row = Throw err" for err
    using updateAirtableRecord_create_fails [OF f that, of s] by (simp add: addLog_hd)
  show ?thesis
    by (rule exI [of _ ?row]) (use f t ok ko in simp)
qed

theorem record_store_writer_row_and_result_witness:
  "airtableFields exampleFailure = Return exampleRow
   \<and> Amount exampleRow = 29.99 \<and> Currency exampleRow = ''USD'' \<and> Status exampleRow = ''Failed''
   \<and> fst (updateAirtableRecord envAllOk exampleFailure initialState) =
       JRecord \<lparr>row_id = ''recA1'', row_fields = exampleRow\<rparr>
   \<and> fst (updateAirtableRecord envSinksFail exampleFailure initialState) = JNull"
proof -
  have cur: "currency exampleFailure = Some ''usd''" by (rule exampleFailure_fields)
  have ok: "airtable_create envAllOk exampleRow = Return \<lparr>row_id = ''recA1'', row_fields = exampleRow\<rparr>"
    by (simp add: envAllOk_def exampleCreate_def)
  have ko: "airtable_create envSinksFail exampleRow = Throw ''NOT_FOUND''"
    by (simp add: envSinksFail_def)
  from record_store_writer_row_and_result [OF cur, of envAllOk initialState]
  have a: "fst (updateAirtableRecord envAllOk exampleFailure initialState) =
       JRecord \<lparr>row_id = ''recA1'', row_fields = exampleRow\<rparr>"
    using ok by (auto simp: exampleFailure_row)
  from record_store_writer_row_and_result [OF cur, of envSinksFail initialState]
  have b: "fst (updateAirtableRecord envSinksFail exampleFailure initialState) = JNull"
    using ko by (auto simp: exampleFailure_row)
  show ?thesis using a b by (simp add: exampleFailure_row) (simp add: exampleRow_def)
qed

text \<open>
  The claim as stated (the writer returns the row's identifier) fails: the value
  returned on success is the row object, not the string of its identifier.
\<close>

theorem record_store_writer_returns_row_counterexample:
  "airtable_create envAllOk exampleRow = Return \<lparr>row_id = ''recA1'', row_fields = exampleRow\<rparr>
   \<and> fst (updateAirtableRecord envAllOk exampleFailure initialState) =
       JRecord \<lparr>row_id = ''recA1'', row_fields = exampleRow\<rparr>
   \<and> fst (updateAirtableRecord envAllOk exampleFailure initialState) \<noteq> JString ''recA1''"
proof -
  have c: "airtable_create envAllOk exampleRow = Return \<lparr>row_id = ''recA1'', row_fields = exampleRow\<rparr>"
    by (simp add: envAllOk_def exampleCreate_def)
  show ?thesis
    using c by (simp add: updateAirtableRecord_created [OF exampleFailure_row c])
qed

end
